theory Spec2Isabelle
  imports Complex_Main
begin

section \<open>Values, errors and effects\<close>

text \<open>
  The relay plugin (\<^verbatim>\<open>src/basement_bot/plugins/relay.py\<close>) moves JSON text between a
  Discord bot and a message queue. What \<^verbatim>\<open>Munch.fromJSON\<close> returns is a tree of
  \<^verbatim>\<open>Munch\<close> objects (dictionaries read by attribute), lists, strings, numbers,
  booleans and \<^verbatim>\<open>None\<close>. A \<^verbatim>\<open>Munch\<close> is an association list here: Python
  dictionaries keep insertion order and have no duplicate keys, and \<open>map_of\<close> reads them.
  Numbers are integers (the identifiers the relay carries); JSON fractions are left out.
\<close>

datatype json =
    JNull
  | JBool bool
  | JNum int
  | JStr string
  | JArr "json list"
  | JObj "(string \<times> json) list"

text \<open>
  The exceptions the modelled code can raise by itself; \<open>RegexError\<close> is
  \<^verbatim>\<open>re.error\<close>, for a pattern that \<^verbatim>\<open>re\<close> does not accept.
\<close>

datatype py_error =
  AttributeError | TypeError | IndexError | KeyError | ValueError | RegexError

datatype level = Debug | Warning

text \<open>
  Discord objects are known by what the plugin does with them: it sends text to a
  channel, asks for the guild of a channel identifier, looks a member up by name and
  kicks, bans or unbans that member, opens a direct-message channel to a user.
\<close>

datatype channel = Channel (channel_ident: int)
datatype guild = Guild int
datatype member = Member int
datatype user = User int

text \<open>
  Everything a coroutine of the plugin does to the outside is one entry of its trace,
  in the order of the calls: a line for the logger, a text sent to a channel, a batch
  handed to the broker, a moderation call on a guild, an embed sent by direct message
  (its title and its fields, each a name and a value).
\<close>

datatype effect =
    Log level string
  | Send channel string
  | Publish "string list"
  | Kick guild member
  | Ban guild member int
  | Unban guild member
  | CreateDm user
  | SendEmbed user string "(string \<times> string) list"

text \<open>A run of a coroutine: its trace, and either the exception that ended it or its value.\<close>

type_synonym 'a io = "effect list \<times> (py_error + 'a)"

definition ret :: "'a \<Rightarrow> 'a io" where
  "ret x = ([], Inr x)"

definition raise :: "py_error \<Rightarrow> 'a io" where
  "raise e = ([], Inl e)"

definition emit :: "effect \<Rightarrow> unit io" where
  "emit ef = ([ef], Inr ())"

definition bind :: "'a io \<Rightarrow> ('a \<Rightarrow> 'b io) \<Rightarrow> 'b io" where
  "bind m f =
     (case m of
        (es, Inl e) \<Rightarrow> (es, Inl e)
      | (es, Inr x) \<Rightarrow> (case f x of (es', r) \<Rightarrow> (es @ es', r)))"

text \<open>A step that has no effect but can raise, as a run with an empty trace.\<close>

definition lift :: "py_error + 'a \<Rightarrow> 'a io" where
  "lift r = ([], r)"

section \<open>What the plugin is given\<close>

text \<open>
  The options of the plugin that the modelled code reads. \<^verbatim>\<open>channel_map\<close> maps an IRC
  channel name to a Discord channel identifier; both plugins keep
  \<^verbatim>\<open>self.channels = list(self.config.channel_map.values())\<close>. The field
  \<open>config_channel\<close> is \<^verbatim>\<open>self.config.channel\<close>, read in line 383.
\<close>

record config =
  channel_map :: "(string \<times> int) list"
  send_limit :: int
  notice_errors :: bool
  commands_allowed :: bool
  stale_seconds :: int
  discord_ban_days :: int
  irc_tag_prefix :: string
  config_channel :: int

definition channels :: "config \<Rightarrow> int list" where
  "channels cfg = map snd (channel_map cfg)"

text \<open>
  The Discord client and \<^verbatim>\<open>utils.helpers\<close> are not part of the sources: what the
  plugin asks of them is a record of functions, and every theorem holds for each such
  record. A lookup returns \<open>None\<close> where the client returns \<^verbatim>\<open>None\<close>; a moderation
  call returns \<open>Some text\<close> when it raises an exception printed as \<open>text\<close>.
\<close>

record bot =
  get_channel :: "int \<Rightarrow> channel option"
  get_guild_from_channel_id :: "int \<Rightarrow> guild option"
  get_member_named :: "guild \<Rightarrow> json \<Rightarrow> member option"
  mention :: "member \<Rightarrow> string"
  get_user :: "json \<Rightarrow> user option"
  kick :: "guild \<Rightarrow> member \<Rightarrow> string option"
  ban :: "guild \<Rightarrow> member \<Rightarrow> int \<Rightarrow> string option"
  unban :: "guild \<Rightarrow> member \<Rightarrow> string option"

text \<open>
  The library calls, parameters as well. A \<^verbatim>\<open>datetime\<close> is a number of microseconds
  on the UTC time line. \<^verbatim>\<open>toJSON\<close> and \<^verbatim>\<open>fromJSON\<close> are \<^verbatim>\<open>Munch\<close>'s (\<open>Inl text\<close>:
  the parser raised an exception printed as \<open>text\<close>); \<^verbatim>\<open>strftime\<close> is
  \<^verbatim>\<open>datetime.strftime(format)\<close> and \<^verbatim>\<open>strptime\<close> is
  \<^verbatim>\<open>datetime.strptime(text, format)\<close> (\<open>None\<close>: the text does not match the format, a
  \<^verbatim>\<open>ValueError\<close>); \<^verbatim>\<open>total_seconds\<close> is \<^verbatim>\<open>timedelta.total_seconds()\<close> of a
  difference of so many microseconds, the float it returns as the rational number it
  is; \<^verbatim>\<open>str_of\<close> is what an f-string prints for a value;
  \<^verbatim>\<open>re_sub\<close> is \<^verbatim>\<open>re.sub(pattern, function, text)\<close>, its function applied to the
  matched text (\<open>None\<close>: the pattern is not accepted, a \<^verbatim>\<open>re.error\<close>);
  \<^verbatim>\<open>str_replace\<close> is \<^verbatim>\<open>text.replace(old, new)\<close>.
\<close>

record lib =
  toJSON :: "json \<Rightarrow> string"
  fromJSON :: "string \<Rightarrow> string + json"
  strftime :: "int \<Rightarrow> string \<Rightarrow> string"
  strptime :: "string \<Rightarrow> string \<Rightarrow> int option"
  total_seconds :: "int \<Rightarrow> rat"
  str_of :: "json \<Rightarrow> string"
  re_sub :: "string \<Rightarrow> (string \<Rightarrow> string) \<Rightarrow> string \<Rightarrow> string option"
  str_replace :: "string \<Rightarrow> string \<Rightarrow> string \<Rightarrow> string"

section \<open>Python on JSON values\<close>

text \<open>
  Attribute access \<^verbatim>\<open>v.name\<close>: a \<^verbatim>\<open>Munch\<close> answers with the value of the key and
  raises \<^verbatim>\<open>AttributeError\<close> when the key is missing; no other value has an attribute of
  the names the plugin reads.
\<close>

definition attr :: "string \<Rightarrow> json \<Rightarrow> py_error + json" where
  "attr name v =
     (case v of
        JObj kvs \<Rightarrow> (case map_of kvs name of None \<Rightarrow> Inl AttributeError | Some x \<Rightarrow> Inr x)
      | _ \<Rightarrow> Inl AttributeError)"

text \<open>A chain \<^verbatim>\<open>v.a.b.c\<close>, read from the left.\<close>

fun attrs :: "json \<Rightarrow> string list \<Rightarrow> py_error + json" where
  "attrs v [] = Inr v"
| "attrs v (name # names) =
     (case attr name v of Inl e \<Rightarrow> Inl e | Inr x \<Rightarrow> attrs x names)"

text \<open>Sequencing two steps that can raise and have no effect.\<close>

definition and_then :: "py_error + 'a \<Rightarrow> ('a \<Rightarrow> py_error + 'b) \<Rightarrow> py_error + 'b" where
  "and_then r f = (case r of Inl e \<Rightarrow> Inl e | Inr x \<Rightarrow> f x)"

text \<open>Truth of a value in a condition (\<^verbatim>\<open>if not time\<close>, \<^verbatim>\<open>if permissions\<close>).\<close>

fun truthy :: "json \<Rightarrow> bool" where
  "truthy JNull = False"
| "truthy (JBool b) = b"
| "truthy (JNum n) = (n \<noteq> 0)"
| "truthy (JStr s) = (s \<noteq> [])"
| "truthy (JArr xs) = (xs \<noteq> [])"
| "truthy (JObj kvs) = (kvs \<noteq> [])"

text \<open>\<^verbatim>\<open>k in s\<close> for two strings: \<open>k\<close> occurs in \<open>s\<close>.\<close>

fun occurs_in :: "string \<Rightarrow> string \<Rightarrow> bool" where
  "occurs_in k [] = (k = [])"
| "occurs_in k (c # cs) = (take (length k) (c # cs) = k \<or> occurs_in k cs)"

text \<open>
  \<^verbatim>\<open>k in v\<close> for a string \<open>k\<close>: a key of a \<^verbatim>\<open>Munch\<close>, an element of a list, a part
  of a string; \<^verbatim>\<open>None\<close>, a boolean and a number are not iterable (\<^verbatim>\<open>TypeError\<close>).
\<close>

definition py_in :: "string \<Rightarrow> json \<Rightarrow> py_error + bool" where
  "py_in k v =
     (case v of
        JObj kvs \<Rightarrow> Inr (k \<in> set (map fst kvs))
      | JArr xs \<Rightarrow> Inr (JStr k \<in> set xs)
      | JStr s \<Rightarrow> Inr (occurs_in k s)
      | _ \<Rightarrow> Inl TypeError)"

text \<open>
  \<^verbatim>\<open>v[i]\<close> for a literal index: an element of a list, a character of a string
  (\<^verbatim>\<open>IndexError\<close> beyond the end), \<^verbatim>\<open>KeyError\<close> on a \<^verbatim>\<open>Munch\<close> (its keys are
  strings), \<^verbatim>\<open>TypeError\<close> on the rest. Python counts a string in characters and
  a \<open>string\<close> here holds its UTF-8 bytes, so \<open>utf8_chars\<close> cuts the bytes into
  characters first: a byte from \<open>0x80\<close> to \<open>0xBF\<close> continues the character before
  it, every other byte starts one.
\<close>

definition continuation :: "char \<Rightarrow> bool" where
  "continuation c = (128 \<le> (of_char c :: nat) \<and> (of_char c :: nat) < 192)"

function utf8_chars :: "string \<Rightarrow> string list" where
  "utf8_chars [] = []"
| "utf8_chars (c # cs) =
     (c # takeWhile continuation cs) # utf8_chars (dropWhile continuation cs)"
  by pat_completeness auto
termination
  by (relation "measure length") (auto simp: length_dropWhile_le less_Suc_eq_le)

definition py_index :: "json \<Rightarrow> nat \<Rightarrow> py_error + json" where
  "py_index v i =
     (case v of
        JArr xs \<Rightarrow> (if i < length xs then Inr (xs ! i) else Inl IndexError)
      | JStr s \<Rightarrow>
          (if i < length (utf8_chars s) then Inr (JStr (utf8_chars s ! i)) else Inl IndexError)
      | JObj kvs \<Rightarrow> Inl KeyError
      | _ \<Rightarrow> Inl TypeError)"

text \<open>
  \<^verbatim>\<open>v.lower()\<close>, compared with \<^verbatim>\<open>"mode"\<close> in line 415: letters \<open>A\<close> to \<open>Z\<close> become
  small (no other character becomes one of \<open>m\<close>, \<open>o\<close>, \<open>d\<close>, \<open>e\<close>). A value that is
  not a string has no method \<^verbatim>\<open>lower\<close>; a \<^verbatim>\<open>Munch\<close> with a key of that name answers
  with a value that cannot be called.
\<close>

definition lower_char :: "char \<Rightarrow> char" where
  "lower_char c =
     (let n = (of_char c :: nat) in if 65 \<le> n \<and> n \<le> 90 then char_of (n + 32) else c)"

definition py_lower :: "json \<Rightarrow> py_error + string" where
  "py_lower v =
     (case v of
        JStr s \<Rightarrow> Inr (map lower_char s)
      | JObj kvs \<Rightarrow> (if ''lower'' \<in> set (map fst kvs) then Inl TypeError else Inl AttributeError)
      | _ \<Rightarrow> Inl AttributeError)"

text \<open>A whole number in decimal, as an f-string prints \<^verbatim>\<open>self.config.stale_seconds\<close>.\<close>

fun str_nat :: "nat \<Rightarrow> string" where
  "str_nat n =
     (if n < 10 then [char_of (48 + n)] else str_nat (n div 10) @ [char_of (48 + n mod 10)])"

definition str_int :: "int \<Rightarrow> string" where
  "str_int i = (if i < 0 then CHR ''-'' # str_nat (nat (- i)) else str_nat (nat i))"

section \<open>The publisher: \<^verbatim>\<open>DiscordRelay\<close>\<close>

text \<open>
  Both plugins inherit the flag \<^verbatim>\<open>mq_error_state\<close> from \<^verbatim>\<open>cogs.MqPlugin\<close>. The
  publisher's own state is the list \<^verbatim>\<open>memory["send_buffer"]\<close>, the receiver's the
  counter \<^verbatim>\<open>error_count\<close>.
\<close>

record mq_plugin =
  mq_error_state :: bool

record relay_state = mq_plugin +
  send_buffer :: "string list"

record receiver_state = mq_plugin +
  error_count :: int

text \<open>
  \<^verbatim>\<open>self.bot.get_channel(self.config.channel_map.get(list(self.config.channel_map.keys())[0]))\<close>,
  lines 67 to 69 and 191 to 193: indexing the keys of an empty map raises
  \<^verbatim>\<open>IndexError\<close>.
\<close>

definition first_channel :: "bot \<Rightarrow> config \<Rightarrow> py_error + channel option" where
  "first_channel b cfg =
     (case map fst (channel_map cfg) of
        [] \<Rightarrow> Inl IndexError
      | k # _ \<Rightarrow>
          (case map_of (channel_map cfg) k of
             None \<Rightarrow> Inr None
           | Some cid \<Rightarrow> Inr (get_channel b cid)))"

text \<open>
  Lines 56 to 62: the entries of the buffer whose position \<open>idx\<close> has
  \<open>idx + 1 \<le> send_limit\<close>, as the comprehension over \<^verbatim>\<open>enumerate\<close> selects them.
\<close>

definition bodies_of :: "int \<Rightarrow> string list \<Rightarrow> string list" where
  "bodies_of limit buf =
     map snd (filter (\<lambda>(idx, body). int idx + 1 \<le> limit) (enumerate 0 buf))"

definition queue_error_text :: string where
  "queue_error_text = ''**ERROR**: Unable to connect to relay event queue''"

text \<open>
  \<^verbatim>\<open>DiscordRelay.execute\<close>, lines 54 to 80. \<^verbatim>\<open>self.publish\<close> comes from
  \<^verbatim>\<open>cogs.MqPlugin\<close>, which is not among the sources: it is the parameter \<open>publish\<close>,
  and \<open>publish bodies\<close> is the value of \<^verbatim>\<open>self.mq_error_state\<close> that \<^verbatim>\<open>execute\<close>
  reads once the call has returned (true: the broker reported an error). Between the
  read of the buffer and the slice assignment the coroutine does not await, so no
  producer runs in between.
\<close>

definition DiscordRelay_execute ::
  "(string list \<Rightarrow> bool) \<Rightarrow> bot \<Rightarrow> config \<Rightarrow> relay_state \<Rightarrow> relay_state io" where
  "DiscordRelay_execute publish b cfg st =
     (let bodies = bodies_of (send_limit cfg) (send_buffer st) in
      if bodies \<noteq> [] then
        (let st1 = st\<lparr>mq_error_state := publish bodies\<rparr> in
         if mq_error_state st1 \<and> notice_errors cfg then
           (case first_channel b cfg of
              Inl e \<Rightarrow> ([Publish bodies], Inl e)
            | Inr None \<Rightarrow> ([Publish bodies], Inr st1)
            | Inr (Some ch) \<Rightarrow> ([Publish bodies, Send ch queue_error_text], Inr st1))
         else
           ([Publish bodies],
            Inr (st1\<lparr>send_buffer := drop (length bodies) (send_buffer st1)\<rparr>)))
      else ([], Inr st))"

text \<open>
  A producer (\<^verbatim>\<open>response\<close>, line 49, and \<^verbatim>\<open>irc_command\<close>, line 172) appends one
  serialized envelope to the buffer.
\<close>

definition append_body :: "string \<Rightarrow> relay_state \<Rightarrow> relay_state" where
  "append_body body st = st\<lparr>send_buffer := send_buffer st @ [body]\<rparr>"

text \<open>
  Ticks of the publisher one after another, the broker's answer given for each tick;
  an exception ends the run, as it ends the loop's task.
\<close>

fun publisher_ticks ::
  "(string list \<Rightarrow> bool) list \<Rightarrow> bot \<Rightarrow> config \<Rightarrow> relay_state \<Rightarrow> relay_state io" where
  "publisher_ticks [] b cfg st = ret st"
| "publisher_ticks (publish # rest) b cfg st =
     bind (DiscordRelay_execute publish b cfg st) (publisher_ticks rest b cfg)"

text \<open>
  What \<^verbatim>\<open>serialize\<close> reads of the command context: \<^verbatim>\<open>content\<close> and
  \<^verbatim>\<open>irc_command\<close> through \<^verbatim>\<open>getattr(ctx, name, None)\<close>, the attachment addresses, the
  author, the author's permissions in the channel
  (\<^verbatim>\<open>ctx.author.permissions_in(ctx.channel)\<close>), the guild and the channel.
\<close>

record ctx =
  content :: "string option"
  irc_command :: "string option"
  attachment_urls :: "string list"
  author_name :: string
  author_id :: int
  author_display_name :: string
  author_discriminator :: string
  author_bot :: bool
  author_top_role :: string
  kick_members :: bool
  ban_members :: bool
  administrator :: bool
  guild_name :: string
  guild_id :: int
  channel_name :: string
  channel_id :: int

definition opt_str :: "string option \<Rightarrow> json" where
  "opt_str x = (case x of None \<Rightarrow> JNull | Some s \<Rightarrow> JStr s)"

text \<open>
  Lines 84 to 123 of \<^verbatim>\<open>serialize\<close>: the \<^verbatim>\<open>Munch\<close> it builds, from the identifier
  \<^verbatim>\<open>str(uuid.uuid4())\<close>, the formatted clock, the type and the context.
\<close>

definition serialize_data :: "string \<Rightarrow> string \<Rightarrow> string \<Rightarrow> ctx \<Rightarrow> json" where
  "serialize_data uuid time etype c =
     JObj
      [(''event'', JObj
          [(''id'', JStr uuid),
           (''type'', JStr etype),
           (''time'', JStr time),
           (''content'', opt_str (content c)),
           (''command'', opt_str (irc_command c)),
           (''attachments'', JArr (map JStr (attachment_urls c)))]),
       (''author'', JObj
          [(''username'', JStr (author_name c)),
           (''id'', JNum (author_id c)),
           (''nickname'', JStr (author_display_name c)),
           (''discriminator'', JStr (author_discriminator c)),
           (''is_bot'', JBool (author_bot c)),
           (''top_role'', JStr (author_top_role c)),
           (''permissions'', JObj
              [(''kick'', JBool (kick_members c)),
               (''ban'', JBool (ban_members c)),
               (''unban'', JBool (ban_members c)),
               (''admin'', JBool (administrator c))])]),
       (''server'', JObj
          [(''name'', JStr (guild_name c)),
           (''id'', JNum (guild_id c))]),
       (''channel'', JObj
          [(''name'', JStr (channel_name c)),
           (''id'', JNum (channel_id c))])]"

text \<open>
  \<^verbatim>\<open>DiscordRelay.serialize\<close>, lines 82 to 128, at the clock reading \<open>now\<close>: the text of
  the envelope, and the line it logs.
\<close>

definition serialize :: "lib \<Rightarrow> string \<Rightarrow> int \<Rightarrow> string \<Rightarrow> ctx \<Rightarrow> string io" where
  "serialize l uuid now etype c =
     (let as_json =
        toJSON l (serialize_data uuid (strftime l now ''%Y-%m-%d %H:%M:%S.%f'') etype c) in
      ([Log Debug (''Serialized data: '' @ as_json)], Inr as_json))"

section \<open>The receiver: \<^verbatim>\<open>IRCReceiver\<close>\<close>

text \<open>\<^verbatim>\<open>IRC_LOGO\<close>, the character U+1F4E8, in UTF-8.\<close>

definition IRC_LOGO :: string where
  "IRC_LOGO = [CHR 0xF0, CHR 0x9F, CHR 0x93, CHR 0xA8]"

text \<open>
  \<^verbatim>\<open>_time_stale\<close>, lines 374 to 379, at the clock reading \<open>now\<close>. \<^verbatim>\<open>strptime\<close> raises
  \<^verbatim>\<open>TypeError\<close> on a value that is not a string and \<^verbatim>\<open>ValueError\<close> on a text that
  does not match the format. Line 377 compares the float
  \<^verbatim>\<open>(now - time).total_seconds()\<close> with the whole number \<^verbatim>\<open>stale_seconds\<close>; Python
  compares the two exactly.
\<close>

definition time_stale :: "lib \<Rightarrow> config \<Rightarrow> int \<Rightarrow> json \<Rightarrow> py_error + bool" where
  "time_stale l cfg now time =
     (case time of
        JStr s \<Rightarrow>
          (case strptime l s ''%Y-%m-%d %H:%M:%S.%f'' of
             None \<Rightarrow> Inl ValueError
           | Some t \<Rightarrow> Inr (total_seconds l (now - t) > of_int (stale_seconds cfg)))
      | _ \<Rightarrow> Inl TypeError)"

text \<open>
  \<^verbatim>\<open>deserialize\<close>, lines 353 to 372: \<open>None\<close> is the bare \<^verbatim>\<open>return\<close>. Only the call
  of \<^verbatim>\<open>Munch.fromJSON\<close> stands inside the \<^verbatim>\<open>try\<close>.
\<close>

definition deserialize :: "lib \<Rightarrow> config \<Rightarrow> int \<Rightarrow> string \<Rightarrow> json option io" where
  "deserialize l cfg now body =
     (case fromJSON l body of
        Inl e \<Rightarrow>
          ([Log Warning (''Unable to Munch-deserialize incoming data: '' @ e),
            Log Warning (''Full body: '' @ body)], Inr None)
      | Inr deserialized \<Rightarrow>
          (case attrs deserialized [''event'', ''time''] of
             Inl e \<Rightarrow> ([], Inl e)
           | Inr time \<Rightarrow>
               if \<not> truthy time then
                 ([Log Warning ''Unable to retrieve time object from incoming data''], Inr None)
               else
                 (case time_stale l cfg now time of
                    Inl e \<Rightarrow> ([], Inl e)
                  | Inr stale \<Rightarrow>
                      if stale then
                        ([Log Warning (''Incoming data failed stale check ('' @
                            str_int (stale_seconds cfg) @ '' seconds)'')], Inr None)
                      else
                        ([Log Debug (''Deserialized data: '' @ body @ '')'')],
                         Inr (Some deserialized)))))"

text \<open>\<^verbatim>\<open>_get_permissions_label\<close>, lines 422 to 430.\<close>

definition get_permissions_label :: "json \<Rightarrow> py_error + string" where
  "get_permissions_label permissions =
     (if truthy permissions then
        and_then (py_in ''v'' permissions) (\<lambda>voiced.
        and_then (py_in ''o'' permissions) (\<lambda>opped.
        Inr ((if voiced then ''+'' else '''') @ (if opped then ''@'' else ''''))))
      else Inr '''')"

text \<open>\<^verbatim>\<open>_format_chat_message\<close>, lines 398 and 399.\<close>

definition format_chat_message :: "lib \<Rightarrow> json \<Rightarrow> py_error + string" where
  "format_chat_message l data =
     and_then (attrs data [''author'', ''permissions'']) (\<lambda>permissions.
     and_then (get_permissions_label permissions) (\<lambda>label.
     and_then (attrs data [''author'', ''nickname'']) (\<lambda>nickname.
     and_then (attrs data [''event'', ''content'']) (\<lambda>content.
     Inr (IRC_LOGO @ '' `'' @ label @ str_of l nickname @ ''` '' @ str_of l content)))))"

text \<open>
  \<^verbatim>\<open>_format_event_message\<close>, lines 401 to 420: \<open>None\<close> when no branch of the chain
  returns.
\<close>

definition format_event_message :: "lib \<Rightarrow> json \<Rightarrow> py_error + string option" where
  "format_event_message l data =
     and_then (attrs data [''author'', ''permissions'']) (\<lambda>permissions.
     and_then (get_permissions_label permissions) (\<lambda>permissions_label.
     and_then (attrs data [''event'', ''type'']) (\<lambda>ty.
     if ty = JStr ''join'' then
       and_then (attrs data [''author'', ''mask'']) (\<lambda>mask.
       and_then (attrs data [''channel'', ''name'']) (\<lambda>name.
       Inr (Some (IRC_LOGO @ '' `'' @ permissions_label @ str_of l mask @ ''` has joined '' @
                  str_of l name @ ''!''))))
     else if ty = JStr ''part'' then
       and_then (attrs data [''author'', ''mask'']) (\<lambda>mask.
       and_then (attrs data [''channel'', ''name'']) (\<lambda>name.
       Inr (Some (IRC_LOGO @ '' `'' @ permissions_label @ str_of l mask @ ''` left '' @
                  str_of l name @ ''!''))))
     else if ty = JStr ''quit'' then
       and_then (attrs data [''author'', ''mask'']) (\<lambda>mask.
       and_then (attrs data [''event'', ''content'']) (\<lambda>content.
       Inr (Some (IRC_LOGO @ '' `'' @ permissions_label @ str_of l mask @ ''` quit ('' @
                  str_of l content @ '')''))))
     else if ty = JStr ''kick'' then
       and_then (attrs data [''author'', ''mask'']) (\<lambda>mask.
       and_then (attrs data [''event'', ''target'']) (\<lambda>target.
       and_then (attrs data [''channel'', ''name'']) (\<lambda>name.
       and_then (attrs data [''event'', ''content'']) (\<lambda>content.
       Inr (Some (IRC_LOGO @ '' `'' @ permissions_label @ str_of l mask @ ''` kicked `'' @
                  str_of l target @ ''` from '' @ str_of l name @ ''! (reason: *'' @
                  str_of l content @ ''*).''))))))
     else if ty = JStr ''action'' then
       and_then (attrs data [''author'', ''nickname'']) (\<lambda>nickname.
       and_then (attrs data [''event'', ''content'']) (\<lambda>content.
       Inr (Some (IRC_LOGO @ '' `'' @ permissions_label @ str_of l nickname @ ''` '' @
                  str_of l content))))
     else if ty = JStr ''other'' then
       and_then (attrs data [''event'', ''irc_command'']) (\<lambda>command.
       and_then (py_lower command) (\<lambda>lowered.
       if lowered = ''mode'' then
         and_then (attrs data [''author'', ''nickname'']) (\<lambda>nickname.
         and_then (attrs data [''event'', ''irc_paramlist'']) (\<lambda>paramlist.
         and_then (py_index paramlist 1) (\<lambda>param1.
         and_then (py_index paramlist 2) (\<lambda>param2.
         Inr (Some (IRC_LOGO @ '' `'' @ permissions_label @ str_of l nickname @
                    ''` sets mode **'' @ str_of l param1 @ ''** on `'' @
                    str_of l param2 @ ''`''))))))
       else
         and_then (attrs data [''author'', ''mask'']) (\<lambda>mask.
         and_then (attrs data [''channel'', ''name'']) (\<lambda>name.
         Inr (Some (IRC_LOGO @ '' `'' @ str_of l mask @ ''` did some configuration on '' @
                    str_of l name @ ''...''))))))
     else if ty = JStr ''factoid'' then
       and_then (attrs data [''event'', ''content'']) (\<lambda>content.
       Inr (Some (IRC_LOGO @ '' '' @ str_of l content)))
     else Inr None)))"

text \<open>\<^verbatim>\<open>process_message\<close>, lines 392 to 396.\<close>

definition process_message :: "lib \<Rightarrow> json \<Rightarrow> py_error + string option" where
  "process_message l data =
     and_then (attrs data [''event'', ''type'']) (\<lambda>ty.
     if ty = JStr ''message'' then and_then (format_chat_message l data) (\<lambda>m. Inr (Some m))
     else format_event_message l data)"

text \<open>
  \<^verbatim>\<open>self.config.channel_map.get(name)\<close> for a value of the envelope: a string is looked
  up, a list or a \<^verbatim>\<open>Munch\<close> cannot be hashed (\<^verbatim>\<open>TypeError\<close>), and no other value is
  a key of the map.
\<close>

definition channel_map_get :: "config \<Rightarrow> json \<Rightarrow> py_error + int option" where
  "channel_map_get cfg name =
     (case name of
        JStr s \<Rightarrow> Inr (map_of (channel_map cfg) s)
      | JArr xs \<Rightarrow> Inl TypeError
      | JObj kvs \<Rightarrow> Inl TypeError
      | _ \<Rightarrow> Inr None)"

text \<open>
  \<^verbatim>\<open>_get_channel\<close>, lines 306 to 309: the loop over \<^verbatim>\<open>self.channels\<close>, which reads
  \<^verbatim>\<open>data.channel.name\<close> in every round and returns \<^verbatim>\<open>None\<close> when it ends.
\<close>

fun get_channel_loop :: "bot \<Rightarrow> config \<Rightarrow> json \<Rightarrow> int list \<Rightarrow> py_error + channel option" where
  "get_channel_loop b cfg data [] = Inr None"
| "get_channel_loop b cfg data (cid # rest) =
     and_then (attrs data [''channel'', ''name'']) (\<lambda>name.
     and_then (channel_map_get cfg name) (\<lambda>mapped.
     if Some cid = mapped then Inr (get_channel b cid)
     else get_channel_loop b cfg data rest))"

definition get_channel_of :: "bot \<Rightarrow> config \<Rightarrow> json \<Rightarrow> py_error + channel option" where
  "get_channel_of b cfg data = get_channel_loop b cfg data (channels cfg)"

text \<open>
  \<^verbatim>\<open>_get_mention_from_irc_tag\<close>, lines 381 to 390, on the matched text.
\<close>

definition get_mention_from_irc_tag :: "lib \<Rightarrow> bot \<Rightarrow> config \<Rightarrow> string \<Rightarrow> string" where
  "get_mention_from_irc_tag l b cfg tagged =
     (case get_guild_from_channel_id b (config_channel cfg) of
        None \<Rightarrow> tagged
      | Some g \<Rightarrow>
          (case get_member_named b g (JStr (str_replace l (irc_tag_prefix cfg) '''' tagged)) of
             None \<Rightarrow> tagged
           | Some m \<Rightarrow> mention b m))"

text \<open>The pattern of line 225: \<^verbatim>\<open>r"\B\{0}\w+".format(self.config.irc_tag_prefix)\<close>.\<close>

definition tag_pattern :: "config \<Rightarrow> string" where
  "tag_pattern cfg =
     [CHR 0x5C, CHR ''B'', CHR 0x5C] @ irc_tag_prefix cfg @ [CHR 0x5C, CHR ''w'', CHR ''+'']"

text \<open>\<^verbatim>\<open>_data_has_op\<close>, lines 300 to 304.\<close>

definition data_has_op :: "json \<Rightarrow> py_error + bool" where
  "data_has_op data =
     and_then (attrs data [''author'', ''permissions'']) (\<lambda>permissions.
     and_then (py_in ''o'' permissions) (\<lambda>found.
     if \<not> found then Inr False else Inr True))"

text \<open>
  Lines 343 to 351 of \<^verbatim>\<open>_process_user_command\<close>: the moderation call inside the
  \<^verbatim>\<open>try\<close>, whose exception is logged and goes no further.
\<close>

definition moderate :: "bot \<Rightarrow> config \<Rightarrow> json \<Rightarrow> guild \<Rightarrow> member \<Rightarrow> effect list" where
  "moderate b cfg command target_guild target_user =
     (if command = JStr ''kick'' then
        Kick target_guild target_user #
          (case kick b target_guild target_user of
             None \<Rightarrow> []
           | Some e \<Rightarrow> [Log Warning (''Unable to send command: '' @ e)])
      else if command = JStr ''ban'' then
        Ban target_guild target_user (discord_ban_days cfg) #
          (case ban b target_guild target_user (discord_ban_days cfg) of
             None \<Rightarrow> []
           | Some e \<Rightarrow> [Log Warning (''Unable to send command: '' @ e)])
      else if command = JStr ''unban'' then
        Unban target_guild target_user #
          (case unban b target_guild target_user of
             None \<Rightarrow> []
           | Some e \<Rightarrow> [Log Warning (''Unable to send command: '' @ e)])
      else [])"

text \<open>
  Lines 318 to 351 of \<^verbatim>\<open>_process_user_command\<close>: what follows the permission check,
  from the channel lookup on.
\<close>

definition resolve_and_execute :: "lib \<Rightarrow> bot \<Rightarrow> config \<Rightarrow> json \<Rightarrow> unit io" where
  "resolve_and_execute l b cfg data =
     bind (lift (get_channel_of b cfg data)) (\<lambda>found.
     case found of
       None \<Rightarrow> emit (Log Warning ''Unable to find channel to send command alert'')
     | Some ch \<Rightarrow>
         bind (lift (attrs data [''event'', ''command''])) (\<lambda>command.
         bind (lift (attrs data [''author'', ''mask''])) (\<lambda>mask.
         bind (lift (attrs data [''event'', ''content''])) (\<lambda>target.
         bind (emit (Send ch (''Executing IRC **'' @ str_of l command @ ''** command from `'' @
                 str_of l mask @ ''` on target `'' @ str_of l target @ ''`''))) (\<lambda>_.
         case get_guild_from_channel_id b (channel_ident ch) of
           None \<Rightarrow>
             bind (emit (Send ch ''> Critical error! Aborting command'')) (\<lambda>_.
             emit (Log Warning
               ''Unable to find guild associated with relay channel (this is unusual)''))
         | Some target_guild \<Rightarrow>
             (case get_member_named b target_guild target of
                None \<Rightarrow>
                  emit (Send ch (''Unable to locate target `'' @ str_of l target @
                    ''`! Aborting command''))
              | Some target_user \<Rightarrow>
                  (moderate b cfg command target_guild target_user, Inr ())))))))"

text \<open>\<^verbatim>\<open>_process_user_command\<close>, lines 311 to 351.\<close>

definition process_user_command :: "lib \<Rightarrow> bot \<Rightarrow> config \<Rightarrow> json \<Rightarrow> unit io" where
  "process_user_command l b cfg data =
     bind (lift (data_has_op data)) (\<lambda>has_op.
     if \<not> has_op then
       bind (lift (attrs data [''event'', ''command''])) (\<lambda>command.
       emit (Log Warning (''Blocking incoming '' @ str_of l command @
         '' request due to permissions'')))
     else resolve_and_execute l b cfg data)"

text \<open>\<^verbatim>\<open>process_command\<close>, lines 249 to 259.\<close>

definition process_command :: "lib \<Rightarrow> bot \<Rightarrow> config \<Rightarrow> json \<Rightarrow> unit io" where
  "process_command l b cfg data =
     (if \<not> commands_allowed cfg then
        bind (lift (attrs data [''event'', ''command''])) (\<lambda>command.
        emit (Log Debug (''Blocking incoming '' @ str_of l command @
          '' request due to disabled config'')))
      else
        bind (lift (attrs data [''event'', ''command''])) (\<lambda>command.
        if command \<in> set [JStr ''kick'', JStr ''ban'', JStr ''unban''] then
          process_user_command l b cfg data
        else
          emit (Log Warning (''Received unroutable command: '' @ str_of l command))))"

text \<open>\<^verbatim>\<open>x or "Not found"\<close>, as the embed prints it.\<close>

definition or_not_found :: "lib \<Rightarrow> json \<Rightarrow> string" where
  "or_not_found l x = (if truthy x then str_of l x else ''Not found'')"

text \<open>\<^verbatim>\<open>_process_whois_response\<close>, lines 271 to 298.\<close>

definition process_whois_response :: "lib \<Rightarrow> bot \<Rightarrow> json \<Rightarrow> unit io" where
  "process_whois_response l b data =
     bind (lift (attrs data [''event'', ''content''])) (\<lambda>response.
     bind (lift (attrs response [''request'', ''author''])) (\<lambda>author_id.
     case get_user b author_id of
       None \<Rightarrow>
         emit (Log Warning (''Unable to find user with ID '' @ str_of l author_id @
           '' associated with response''))
     | Some requester \<Rightarrow>
         bind (emit (CreateDm requester)) (\<lambda>_.
         bind (lift (attrs response [''payload'', ''nick''])) (\<lambda>nick.
         bind (lift (attrs response [''payload'', ''user''])) (\<lambda>usr.
         bind (lift (attrs response [''payload'', ''host''])) (\<lambda>host.
         bind (lift (attrs response [''payload'', ''realname''])) (\<lambda>realname.
         bind (lift (attrs response [''payload'', ''server''])) (\<lambda>server.
         emit (SendEmbed requester (''WHOIS Response for '' @ str_of l nick)
           [(''User'', or_not_found l usr),
            (''Host'', or_not_found l host),
            (''Realname'', or_not_found l realname),
            (''Server'', or_not_found l server)])))))))))"

text \<open>\<^verbatim>\<open>process_response\<close>, lines 261 to 269.\<close>

definition process_response :: "lib \<Rightarrow> bot \<Rightarrow> json \<Rightarrow> unit io" where
  "process_response l b data =
     bind (lift (attrs data [''event'', ''content''])) (\<lambda>response.
     if \<not> truthy response then emit (Log Warning ''Received empty response'')
     else
       bind (lift (attr ''type'' response)) (\<lambda>ty.
       if ty = JStr ''whois'' then
         bind (process_whois_response l b data) (\<lambda>_.
         bind (lift (attrs response [''request'', ''author''])) (\<lambda>_. ret ()))
       else ret ()))"

text \<open>The types of line 208 to 217, which \<^verbatim>\<open>handle_event\<close> formats and displays.\<close>

definition message_types :: "json list" where
  "message_types =
     [JStr ''message'', JStr ''join'', JStr ''part'', JStr ''quit'', JStr ''kick'',
      JStr ''action'', JStr ''other'', JStr ''factoid'']"

text \<open>
  Lines 207 to 247 of \<^verbatim>\<open>handle_event\<close>: the dispatch on \<^verbatim>\<open>data.event.type\<close> of an
  envelope that \<^verbatim>\<open>deserialize\<close> returned; \<open>response\<close> is the text it was read from.
\<close>

definition dispatch_event :: "lib \<Rightarrow> bot \<Rightarrow> config \<Rightarrow> string \<Rightarrow> json \<Rightarrow> unit io" where
  "dispatch_event l b cfg response data =
     bind (lift (attrs data [''event'', ''type''])) (\<lambda>ty.
     if ty \<in> set message_types then
       bind (lift (attrs data [''event'', ''target''])) (\<lambda>target.
       if target = JStr ''factoid_request'' then
         emit (Log Debug ''Ignoring factoid request event'')
       else
         bind (lift (process_message l data)) (\<lambda>formatted.
         case formatted of
           None \<Rightarrow> emit (Log Warning (''Unable to format message for event: '' @ response))
         | Some message \<Rightarrow>
             if message = [] then
               emit (Log Warning (''Unable to format message for event: '' @ response))
             else
               (case re_sub l (tag_pattern cfg) (get_mention_from_irc_tag l b cfg) message of
                  None \<Rightarrow> raise RegexError
                | Some tagged \<Rightarrow>
                    bind (lift (get_channel_of b cfg data)) (\<lambda>found.
                    case found of
                      None \<Rightarrow>
                        emit (Log Warning ''Unable to find channel to send command alert'')
                    | Some ch \<Rightarrow> emit (Send ch tagged)))))
     else if ty = JStr ''command'' then process_command l b cfg data
     else if ty = JStr ''response'' then process_response l b data
     else emit (Log Warning (''Unable to handle event: '' @ response)))"

text \<open>
  \<^verbatim>\<open>handle_event\<close>, lines 201 to 247, at the clock reading \<open>now\<close>. The test
  \<^verbatim>\<open>if not data\<close> also holds for an empty \<^verbatim>\<open>Munch\<close>.
\<close>

definition handle_event :: "lib \<Rightarrow> bot \<Rightarrow> config \<Rightarrow> int \<Rightarrow> string \<Rightarrow> unit io" where
  "handle_event l b cfg now response =
     bind (deserialize l cfg now response) (\<lambda>data.
     case data of
       None \<Rightarrow> emit (Log Warning ''Unable to deserialize data! Aborting!'')
     | Some d \<Rightarrow>
         if \<not> truthy d then emit (Log Warning ''Unable to deserialize data! Aborting!'')
         else dispatch_event l b cfg response d)"

text \<open>
  Lines 198 and 199: the loop over the responses, each with the clock reading at which
  it is handled. An exception leaves the loop.
\<close>

fun handle_events :: "lib \<Rightarrow> bot \<Rightarrow> config \<Rightarrow> (int \<times> string) list \<Rightarrow> unit io" where
  "handle_events l b cfg [] = ret ()"
| "handle_events l b cfg ((now, response) # rest) =
     bind (handle_event l b cfg now response) (\<lambda>_. handle_events l b cfg rest)"

text \<open>
  \<^verbatim>\<open>IRCReceiver.execute\<close>, lines 188 to 199. \<^verbatim>\<open>self.consume\<close> comes from
  \<^verbatim>\<open>cogs.MqPlugin\<close> as well: \<open>consumed\<close> is the list it returned, each response with
  the clock reading at which it will be handled, and \<open>failed\<close> is the value of
  \<^verbatim>\<open>self.mq_error_state\<close> after the call. Line 194 sends without testing the channel, so
  a missing channel raises \<^verbatim>\<open>AttributeError\<close> before the counter moves.
\<close>

definition IRCReceiver_execute ::
  "(int \<times> string) list \<Rightarrow> bool \<Rightarrow> lib \<Rightarrow> bot \<Rightarrow> config \<Rightarrow> receiver_state \<Rightarrow> receiver_state io" where
  "IRCReceiver_execute consumed failed l b cfg st =
     (let st1 = st\<lparr>mq_error_state := failed\<rparr> in
      if mq_error_state st1 \<and> notice_errors cfg \<and> error_count st1 < 5 then
        (case first_channel b cfg of
           Inl e \<Rightarrow> ([], Inl e)
         | Inr None \<Rightarrow> ([], Inl AttributeError)
         | Inr (Some ch) \<Rightarrow>
             ([Send ch queue_error_text], Inr (st1\<lparr>error_count := error_count st1 + 1\<rparr>)))
      else
        bind (handle_events l b cfg consumed) (\<lambda>_. ret st1))"

text \<open>
  Ticks of the receiver one after another, with what \<^verbatim>\<open>consume\<close> gave in each.
\<close>

fun receiver_ticks ::
  "((int \<times> string) list \<times> bool) list \<Rightarrow> lib \<Rightarrow> bot \<Rightarrow> config \<Rightarrow> receiver_state \<Rightarrow>
     receiver_state io" where
  "receiver_ticks [] l b cfg st = ret st"
| "receiver_ticks ((consumed, failed) # rest) l b cfg st =
     bind (IRCReceiver_execute consumed failed l b cfg st) (receiver_ticks rest l b cfg)"

text \<open>The alerts in a trace: the error texts sent to a channel.\<close>

definition alerts :: "effect list \<Rightarrow> effect list" where
  "alerts es = filter (\<lambda>ef. case ef of Send ch text \<Rightarrow> text = queue_error_text | _ \<Rightarrow> False) es"

section \<open>A sample deployment\<close>

text \<open>
  The instances at which the theorems below are evaluated: one mapped channel, a guild
  with one member named \<open>troll\<close>, and a library cut down to the texts the examples
  use (five clock readings, with midnight of 1 January 2020 as 0, in the one format
  the plugin uses; values printed as an f-string prints strings, numbers, booleans and
  \<^verbatim>\<open>None\<close>; no example prints a list or a \<^verbatim>\<open>Munch\<close>, and none contains a tag, so
  \<^verbatim>\<open>re.sub\<close> and \<^verbatim>\<open>replace\<close> leave their texts as they are). Its
  \<^verbatim>\<open>total_seconds\<close> is the exact quotient, which is the float on every whole second,
  but for 20000000000000001 microseconds, which the float rounds to 20000000000.0.
\<close>

definition sample_config :: config where
  "sample_config =
     \<lparr>channel_map = [(''#help'', 7)], send_limit = 2, notice_errors = True,
      commands_allowed = True, stale_seconds = 300, discord_ban_days = 7,
      irc_tag_prefix = ''@'', config_channel = 7\<rparr>"

definition sample_bot :: bot where
  "sample_bot =
     \<lparr>get_channel = (\<lambda>cid. Some (Channel cid)),
      get_guild_from_channel_id = (\<lambda>cid. Some (Guild 1)),
      get_member_named = (\<lambda>g name. if name = JStr ''troll'' then Some (Member 42) else None),
      mention = (\<lambda>m. ''<@42>''),
      get_user = (\<lambda>v. case v of JNum n \<Rightarrow> Some (User n) | _ \<Rightarrow> None),
      kick = (\<lambda>g m. None),
      ban = (\<lambda>g m days. None),
      unban = (\<lambda>g m. None)\<rparr>"

definition sample_clock :: "(string \<times> int) list" where
  "sample_clock =
     [(''2020-01-01 00:00:00.000000'', 0),
      (''2020-01-01 00:04:59.000000'', 299000000),
      (''2020-01-01 00:05:00.000000'', 300000000),
      (''2020-01-01 00:05:01.000000'', 301000000),
      (''1386-03-23 12:26:39.999999'', - 20000000000000001)]"

definition sample_str :: "json \<Rightarrow> string" where
  "sample_str v =
     (case v of
        JStr s \<Rightarrow> s
      | JNull \<Rightarrow> ''None''
      | JBool x \<Rightarrow> (if x then ''True'' else ''False'')
      | JNum n \<Rightarrow> str_int n
      | JArr xs \<Rightarrow> ''[...]''
      | JObj kvs \<Rightarrow> ''Munch(...)'')"

definition sample_lib :: "string \<Rightarrow> json \<Rightarrow> lib" where
  "sample_lib wire doc =
     \<lparr>toJSON = (\<lambda>v. if v = doc then wire else ''null''),
      fromJSON = (\<lambda>body. if body = wire then Inr doc else Inl ''Expecting value''),
      strftime = (\<lambda>t fmt. if fmt = ''%Y-%m-%d %H:%M:%S.%f'' then
                          (case map_of (map (\<lambda>(s, u). (u, s)) sample_clock) t of
                             None \<Rightarrow> '''' | Some s \<Rightarrow> s)
                        else ''''),
      strptime = (\<lambda>s fmt. if fmt = ''%Y-%m-%d %H:%M:%S.%f'' then map_of sample_clock s else None),
      total_seconds = (\<lambda>n. if n = 20000000000000001 then 20000000000
                           else of_int n / 1000000),
      str_of = sample_str,
      re_sub = (\<lambda>pattern f text. Some text),
      str_replace = (\<lambda>old new text. text)\<rparr>"

text \<open>A moderator on Discord, with the right to kick, who sends a command or writes a line.\<close>

definition sample_ctx :: ctx where
  "sample_ctx =
     \<lparr>content = Some ''troll'', irc_command = Some ''kick'', attachment_urls = [],
      author_name = ''mod'', author_id = 11, author_display_name = ''Mod'',
      author_discriminator = ''0001'', author_bot = False, author_top_role = ''Moderator'',
      kick_members = True, ban_members = False, administrator = False,
      guild_name = ''Support'', guild_id = 1, channel_name = ''help'', channel_id = 7\<rparr>"

text \<open>
  An envelope as the peer on IRC sends it, with the fields the receiver reads: the
  type, the time text, the command and the author's permissions are left open.
\<close>

definition irc_envelope :: "string \<Rightarrow> string \<Rightarrow> json \<Rightarrow> json \<Rightarrow> json" where
  "irc_envelope etype time command permissions =
     JObj
      [(''event'', JObj
          [(''id'', JStr ''e-1''),
           (''type'', JStr etype),
           (''time'', JStr time),
           (''content'', JStr ''troll''),
           (''command'', command),
           (''target'', JStr ''bob''),
           (''irc_command'', JStr ''MODE''),
           (''irc_paramlist'', JArr [JStr ''#help'', JStr ''+o'', JStr ''bob'']),
           (''attachments'', JArr [])]),
       (''author'', JObj
          [(''username'', JStr ''alice''),
           (''nickname'', JStr ''alice''),
           (''mask'', JStr ''alice!a@irc.example''),
           (''permissions'', permissions)]),
       (''server'', JObj [(''name'', JStr ''irc.example'')]),
       (''channel'', JObj [(''name'', JStr ''#help'')])]"

text \<open>
  A JSON codec for the examples that send an envelope over the wire: the printer writes
  as \<^verbatim>\<open>json.dumps\<close> does for ASCII text without control characters (\<open>", "\<close> and
  \<open>": "\<close> between the parts, a backslash before a quote and a backslash), and the
  reader takes such text back, with blanks allowed between the parts. The reader's
  first argument bounds the depth of its calls.
\<close>

definition escape_char :: "char \<Rightarrow> string" where
  "escape_char c = (if c = CHR 0x22 \<or> c = CHR 0x5C then [CHR 0x5C, c] else [c])"

definition quoted :: "string \<Rightarrow> string" where
  "quoted s = CHR 0x22 # concat (map escape_char s) @ [CHR 0x22]"

fun joined :: "string list \<Rightarrow> string" where
  "joined [] = []"
| "joined [x] = x"
| "joined (x # y # ys) = x @ '', '' @ joined (y # ys)"

fun print_json :: "json \<Rightarrow> string" where
  "print_json JNull = ''null''"
| "print_json (JBool b) = (if b then ''true'' else ''false'')"
| "print_json (JNum n) = str_int n"
| "print_json (JStr s) = quoted s"
| "print_json (JArr xs) = ''['' @ joined (map print_json xs) @ '']''"
| "print_json (JObj kvs) =
     ''{'' @ joined (map (\<lambda>(k, v). quoted k @ '': '' @ print_json v) kvs) @ ''}''"

definition skip_ws :: "string \<Rightarrow> string" where
  "skip_ws s = dropWhile (\<lambda>c. c = CHR '' '') s"

fun read_string :: "string \<Rightarrow> (string \<times> string) option" where
  "read_string [] = None"
| "read_string (c # cs) =
     (if c = CHR 0x22 then Some ([], cs)
      else if c = CHR 0x5C then
        (case cs of
           [] \<Rightarrow> None
         | d # ds \<Rightarrow> (case read_string ds of None \<Rightarrow> None | Some (s, r) \<Rightarrow> Some (d # s, r)))
      else (case read_string cs of None \<Rightarrow> None | Some (s, r) \<Rightarrow> Some (c # s, r)))"

definition is_digit :: "char \<Rightarrow> bool" where
  "is_digit c = (48 \<le> (of_char c :: nat) \<and> (of_char c :: nat) \<le> 57)"

definition digits_value :: "string \<Rightarrow> nat" where
  "digits_value ds = foldl (\<lambda>n c. 10 * n + (of_char c - 48)) 0 ds"

definition read_number :: "string \<Rightarrow> (json \<times> string) option" where
  "read_number s =
     (case s of
        [] \<Rightarrow> None
      | c # cs \<Rightarrow>
          if c = CHR ''-'' then
            (if takeWhile is_digit cs = [] then None
             else Some (JNum (- int (digits_value (takeWhile is_digit cs))),
                        dropWhile is_digit cs))
          else if takeWhile is_digit s = [] then None
          else Some (JNum (int (digits_value (takeWhile is_digit s))), dropWhile is_digit s))"

fun read_value :: "nat \<Rightarrow> string \<Rightarrow> (json \<times> string) option"
  and read_items :: "nat \<Rightarrow> string \<Rightarrow> (json list \<times> string) option"
  and read_members :: "nat \<Rightarrow> string \<Rightarrow> ((string \<times> json) list \<times> string) option" where
  "read_value 0 s = None"
| "read_value (Suc n) s =
     (case skip_ws s of
        [] \<Rightarrow> None
      | c # cs \<Rightarrow>
          if c = CHR ''{'' then
            (if take 1 (skip_ws cs) = ''}'' then Some (JObj [], drop 1 (skip_ws cs))
             else (case read_members n cs of
                     None \<Rightarrow> None | Some (kvs, r) \<Rightarrow> Some (JObj kvs, r)))
          else if c = CHR ''['' then
            (if take 1 (skip_ws cs) = '']'' then Some (JArr [], drop 1 (skip_ws cs))
             else (case read_items n cs of
                     None \<Rightarrow> None | Some (vs, r) \<Rightarrow> Some (JArr vs, r)))
          else if c = CHR 0x22 then
            (case read_string cs of None \<Rightarrow> None | Some (x, r) \<Rightarrow> Some (JStr x, r))
          else if take 4 (c # cs) = ''null'' then Some (JNull, drop 4 (c # cs))
          else if take 4 (c # cs) = ''true'' then Some (JBool True, drop 4 (c # cs))
          else if take 5 (c # cs) = ''false'' then Some (JBool False, drop 5 (c # cs))
          else read_number (c # cs))"
| "read_items 0 s = None"
| "read_items (Suc n) s =
     (case read_value n s of
        None \<Rightarrow> None
      | Some (v, r) \<Rightarrow>
          if take 1 (skip_ws r) = '','' then
            (case read_items n (drop 1 (skip_ws r)) of
               None \<Rightarrow> None | Some (vs, r') \<Rightarrow> Some (v # vs, r'))
          else if take 1 (skip_ws r) = '']'' then Some ([v], drop 1 (skip_ws r))
          else None)"
| "read_members 0 s = None"
| "read_members (Suc n) s =
     (if take 1 (skip_ws s) = [CHR 0x22] then
        (case read_string (drop 1 (skip_ws s)) of
           None \<Rightarrow> None
         | Some (k, r) \<Rightarrow>
             if take 1 (skip_ws r) = '':'' then
               (case read_value n (drop 1 (skip_ws r)) of
                  None \<Rightarrow> None
                | Some (v, r') \<Rightarrow>
                    if take 1 (skip_ws r') = '','' then
                      (case read_members n (drop 1 (skip_ws r')) of
                         None \<Rightarrow> None | Some (kvs, r'') \<Rightarrow> Some ((k, v) # kvs, r''))
                    else if take 1 (skip_ws r') = ''}'' then
                      Some ([(k, v)], drop 1 (skip_ws r'))
                    else None)
             else None)
      else None)"

definition parse_json :: "string \<Rightarrow> string + json" where
  "parse_json s =
     (case read_value (Suc (length s)) s of
        None \<Rightarrow> Inl ''Expecting value''
      | Some (v, r) \<Rightarrow> if skip_ws r = [] then Inr v else Inl ''Extra data'')"

text \<open>The sample library with this codec in place of the one-document table.\<close>

definition codec_lib :: lib where
  "codec_lib = (sample_lib [] JNull)\<lparr>toJSON := print_json, fromJSON := parse_json\<rparr>"

section \<open>Properties of the publisher\<close>

lemma enumerate_filter_take:
  "map snd (filter (\<lambda>(idx, body). int idx + 1 \<le> limit) (enumerate k buf)) =
     take (nat (limit - int k)) buf"
proof (induction buf arbitrary: k)
  case Nil
  then show ?case by simp
next
  case (Cons b buf)
  have step: "nat (limit - int k) = Suc (nat (limit - int (Suc k)))" if "int k + 1 \<le> limit"
    using that by simp
  show ?case
  proof (cases "int k + 1 \<le> limit")
    case True
    then show ?thesis using Cons.IH [of "Suc k"] step by simp
  next
    case False
    then have "nat (limit - int k) = 0" by simp
    moreover have "filter (\<lambda>(idx, body). int idx + 1 \<le> limit) (enumerate (Suc k) buf) = []"
      using False by (auto simp: filter_empty_conv in_set_enumerate_eq)
    ultimately show ?thesis using False by simp
  qed
qed

lemma bodies_of_take: "bodies_of limit buf = take (nat limit) buf"
  using enumerate_filter_take [of limit 0 buf] by (simp add: bodies_of_def)

lemma length_bodies_of: "length (bodies_of limit buf) = min (nat limit) (length buf)"
  by (simp add: bodies_of_take min.commute)


text \<open>
  On the path that removes (the else of line 74) the tick hands the broker the first
  \<open>min (nat send_limit) (length buffer)\<close> entries and keeps the rest.
\<close>

lemma execute_removes:
  assumes "\<not> (publish (bodies_of (send_limit cfg) (send_buffer st)) \<and> notice_errors cfg)"
  shows "\<exists>st'. snd (DiscordRelay_execute publish b cfg st) = Inr st' \<and>
           send_buffer st' =
             drop (min (nat (send_limit cfg)) (length (send_buffer st))) (send_buffer st)"
proof (cases "bodies_of (send_limit cfg) (send_buffer st) = []")
  case True
  then have "min (nat (send_limit cfg)) (length (send_buffer st)) = 0"
    using length_bodies_of [of "send_limit cfg" "send_buffer st"] by simp
  then show ?thesis using True by (simp add: DiscordRelay_execute_def)
next
  case False
  then show ?thesis using assms
    by (auto simp: DiscordRelay_execute_def Let_def length_bodies_of)
qed

lemma execute_trace:
  "fst (DiscordRelay_execute publish b cfg st) = [] \<or>
   hd (fst (DiscordRelay_execute publish b cfg st)) =
     Publish (take (nat (send_limit cfg)) (send_buffer st))"
  by (auto simp: DiscordRelay_execute_def Let_def bodies_of_take
      split: sum.splits option.splits)

lemma foldl_append_body:
  "send_buffer (foldl (\<lambda>s b. append_body b s) st new) = send_buffer st @ new"
  by (induction new arbitrary: st) (simp_all add: append_body_def)

text \<open>
  With error notices switched on, a tick whose publish fails keeps the buffer as it
  was, whether or not the alert could be sent.
\<close>

lemma execute_failure_noticed_keeps_buffer:
  assumes "publish (bodies_of (send_limit cfg) (send_buffer st))" and "notice_errors cfg"
    and "snd (DiscordRelay_execute publish b cfg st) = Inr st'"
  shows "send_buffer st' = send_buffer st"
  using assms
  by (auto simp: DiscordRelay_execute_def Let_def split: if_splits sum.splits option.splits)

text \<open>
  C4. A publisher tick whose publish succeeds (the broker flag is false after the
  call) hands the broker the first \<open>min send_limit length\<close> entries of the buffer,
  oldest first, and removes exactly those: the buffer after the tick is the rest, and
  entries that producers append afterwards follow it in their order. No producer can
  append between the read and the removal, since the tick does not await there.
\<close>

theorem publish_success_removes_prefix:
  assumes "bodies_of (send_limit cfg) (send_buffer st) \<noteq> []"
    and "\<not> publish (bodies_of (send_limit cfg) (send_buffer st))"
  shows "\<exists>st'. DiscordRelay_execute publish b cfg st =
             ([Publish (take (min (nat (send_limit cfg)) (length (send_buffer st))) (send_buffer st))],
              Inr st') \<and>
           send_buffer st' =
             drop (min (nat (send_limit cfg)) (length (send_buffer st))) (send_buffer st) \<and>
           send_buffer (foldl (\<lambda>s b. append_body b s) st' new) =
             drop (min (nat (send_limit cfg)) (length (send_buffer st))) (send_buffer st) @ new"
proof -
  let ?n = "min (nat (send_limit cfg)) (length (send_buffer st))"
  let ?bodies = "bodies_of (send_limit cfg) (send_buffer st)"
  let ?st' = "st\<lparr>mq_error_state := publish ?bodies,
                 send_buffer := drop (length ?bodies) (send_buffer st)\<rparr>"
  have bodies: "?bodies = take ?n (send_buffer st)"
    by (cases "nat (send_limit cfg) \<le> length (send_buffer st)")
      (simp_all add: bodies_of_take min_def)
  have run: "DiscordRelay_execute publish b cfg st = ([Publish ?bodies], Inr ?st')"
    using assms by (simp add: DiscordRelay_execute_def Let_def)
  have buf: "send_buffer ?st' = drop ?n (send_buffer st)"
    by (simp add: length_bodies_of)
  show ?thesis
    using run buf foldl_append_body [of ?st' new] bodies by (metis (no_types, lifting))
qed

theorem publish_success_removes_prefix_witness:
  "\<exists>st'. DiscordRelay_execute (\<lambda>bodies. False) sample_bot sample_config
            \<lparr>mq_error_state = False, send_buffer = [''A'', ''B'', ''C'', ''D'']\<rparr> =
          ([Publish [''A'', ''B'']], Inr st') \<and>
        send_buffer st' = [''C'', ''D''] \<and>
        send_buffer (foldl (\<lambda>s b. append_body b s) st' [''E'', ''F'']) =
          [''C'', ''D'', ''E'', ''F'']"
  using publish_success_removes_prefix
    [of sample_config "\<lparr>mq_error_state = False, send_buffer = [''A'', ''B'', ''C'', ''D'']\<rparr>"
        "\<lambda>bodies. False" sample_bot "[''E'', ''F'']"]
  by (simp add: bodies_of_take sample_config_def)

text \<open>
  C1. The claim is that a tick whose publish fails never removes the attempted slice,
  whatever \<^verbatim>\<open>notice_errors\<close> is. Line 65 tests
  \<^verbatim>\<open>self.mq_error_state and self.config.notice_errors\<close>, and the removal is the else of
  that test: with \<^verbatim>\<open>notice_errors\<close> false a failed publish takes the else. Here the
  buffer is \<open>[A, B, C, D]\<close>, \<^verbatim>\<open>send_limit\<close> is 2, the broker reports an error, and the
  tick leaves \<open>[C, D]\<close>: \<open>A\<close> and \<open>B\<close> were not delivered and are gone.
\<close>

theorem failed_publish_unnoticed_drops_slice:
  "DiscordRelay_execute (\<lambda>bodies. True) sample_bot (sample_config\<lparr>notice_errors := False\<rparr>)
     \<lparr>mq_error_state = False, send_buffer = [''A'', ''B'', ''C'', ''D'']\<rparr> =
   ([Publish [''A'', ''B'']],
    Inr \<lparr>mq_error_state = True, send_buffer = [''C'', ''D'']\<rparr>)"
  by (simp add: DiscordRelay_execute_def bodies_of_take Let_def sample_config_def)
section \<open>Running the model\<close>

declare str_nat.simps [simp del]

lemma bind_Inl [simp]: "bind (es, Inl e) f = (es, Inl e)"
  by (simp add: bind_def)

lemma bind_Inr [simp]: "bind (es, Inr x) f = (es @ fst (f x), snd (f x))"
  by (simp add: bind_def split: prod.splits)

lemma bind_lift_Inr [simp]: "bind (lift (Inr x)) f = f x"
  by (simp add: lift_def)

lemma bind_lift_Inl [simp]: "bind (lift (Inl e)) f = ([], Inl e)"
  by (simp add: lift_def)

lemma bind_ret [simp]: "bind (ret x) f = f x"
  by (simp add: ret_def)

lemma bind_emit [simp]: "bind (emit ef) f = (ef # fst (f ()), snd (f ()))"
  by (simp add: emit_def)

lemma and_then_Inr [simp]: "and_then (Inr x) f = f x"
  by (simp add: and_then_def)

lemma and_then_Inl [simp]: "and_then (Inl e) f = Inl e"
  by (simp add: and_then_def)

lemma attrs_truthy:
  assumes "attrs d (name # names) = Inr x"
  shows "truthy d"
  using assms by (cases d) (auto simp: attr_def)

section \<open>Properties of serialization\<close>

text \<open>
  C10. In every envelope that \<^verbatim>\<open>serialize\<close> produces, \<^verbatim>\<open>author.permissions.unban\<close>
  and \<^verbatim>\<open>author.permissions.ban\<close> are the same boolean, the author's \<^verbatim>\<open>ban_members\<close>
  permission in the channel.
\<close>

theorem serialize_unban_is_ban:
  "serialize l uuid now etype c =
     ([Log Debug (''Serialized data: '' @
         toJSON l (serialize_data uuid (strftime l now ''%Y-%m-%d %H:%M:%S.%f'') etype c))],
      Inr (toJSON l (serialize_data uuid (strftime l now ''%Y-%m-%d %H:%M:%S.%f'') etype c))) \<and>
   attrs (serialize_data uuid (strftime l now ''%Y-%m-%d %H:%M:%S.%f'') etype c)
     [''author'', ''permissions'', ''unban''] = Inr (JBool (ban_members c)) \<and>
   attrs (serialize_data uuid (strftime l now ''%Y-%m-%d %H:%M:%S.%f'') etype c)
     [''author'', ''permissions'', ''ban''] = Inr (JBool (ban_members c))"
  by (simp add: serialize_def serialize_data_def attr_def Let_def)

section \<open>Properties of deserialization\<close>

lemma deserialize_unparseable:
  "fromJSON l body = Inl e \<Longrightarrow>
   deserialize l cfg now body =
     ([Log Warning (''Unable to Munch-deserialize incoming data: '' @ e),
       Log Warning (''Full body: '' @ body)], Inr None)"
  by (simp add: deserialize_def)

lemma deserialize_time_falsy:
  "fromJSON l body = Inr d \<Longrightarrow> attrs d [''event'', ''time''] = Inr time \<Longrightarrow> \<not> truthy time \<Longrightarrow>
   deserialize l cfg now body =
     ([Log Warning ''Unable to retrieve time object from incoming data''], Inr None)"
  by (simp add: deserialize_def)

lemma deserialize_time_missing:
  "fromJSON l body = Inr d \<Longrightarrow> attrs d [''event'', ''time''] = Inl e \<Longrightarrow>
   deserialize l cfg now body = ([], Inl e)"
  by (simp add: deserialize_def)

lemma deserialize_timed:
  "fromJSON l body = Inr d \<Longrightarrow> attrs d [''event'', ''time''] = Inr (JStr s) \<Longrightarrow> s \<noteq> [] \<Longrightarrow>
   strptime l s ''%Y-%m-%d %H:%M:%S.%f'' = Some t \<Longrightarrow>
   deserialize l cfg now body =
     (if total_seconds l (now - t) > of_int (stale_seconds cfg) then
        ([Log Warning (''Incoming data failed stale check ('' @ str_int (stale_seconds cfg) @
            '' seconds)'')], Inr None)
      else ([Log Debug (''Deserialized data: '' @ body @ '')'')], Inr (Some d)))"
  by (simp add: deserialize_def time_stale_def)

lemma serialize_data_time:
  "attrs (serialize_data uuid time etype c) [''event'', ''time''] = Inr (JStr time)"
  by (simp add: serialize_data_def attr_def)

text \<open>What \<^verbatim>\<open>serialize\<close> writes into the envelope, field by field.\<close>

lemma serialize_data_fields:
  "attrs (serialize_data uuid time etype c) [''event'', ''id''] = Inr (JStr uuid)"
  "attrs (serialize_data uuid time etype c) [''event'', ''type''] = Inr (JStr etype)"
  "attrs (serialize_data uuid time etype c) [''event'', ''content''] = Inr (opt_str (content c))"
  "attrs (serialize_data uuid time etype c) [''event'', ''command''] =
     Inr (opt_str (irc_command c))"
  "attrs (serialize_data uuid time etype c) [''event'', ''attachments''] =
     Inr (JArr (map JStr (attachment_urls c)))"
  "attrs (serialize_data uuid time etype c) [''author'', ''username''] = Inr (JStr (author_name c))"
  "attrs (serialize_data uuid time etype c) [''author'', ''id''] = Inr (JNum (author_id c))"
  "attrs (serialize_data uuid time etype c) [''author'', ''nickname''] =
     Inr (JStr (author_display_name c))"
  "attrs (serialize_data uuid time etype c) [''author'', ''discriminator''] =
     Inr (JStr (author_discriminator c))"
  "attrs (serialize_data uuid time etype c) [''author'', ''is_bot''] = Inr (JBool (author_bot c))"
  "attrs (serialize_data uuid time etype c) [''author'', ''top_role''] =
     Inr (JStr (author_top_role c))"
  "attrs (serialize_data uuid time etype c) [''author'', ''permissions'', ''kick''] =
     Inr (JBool (kick_members c))"
  "attrs (serialize_data uuid time etype c) [''author'', ''permissions'', ''ban''] =
     Inr (JBool (ban_members c))"
  "attrs (serialize_data uuid time etype c) [''author'', ''permissions'', ''unban''] =
     Inr (JBool (ban_members c))"
  "attrs (serialize_data uuid time etype c) [''author'', ''permissions'', ''admin''] =
     Inr (JBool (administrator c))"
  "attrs (serialize_data uuid time etype c) [''server'', ''name''] = Inr (JStr (guild_name c))"
  "attrs (serialize_data uuid time etype c) [''server'', ''id''] = Inr (JNum (guild_id c))"
  "attrs (serialize_data uuid time etype c) [''channel'', ''name''] = Inr (JStr (channel_name c))"
  "attrs (serialize_data uuid time etype c) [''channel'', ''id''] = Inr (JNum (channel_id c))"
  by (simp_all add: serialize_data_def attr_def)

text \<open>
  C5. Round trip. Let \<open>body\<close> be what \<^verbatim>\<open>serialize\<close> returns at the clock reading
  \<open>t0\<close>, for any type and any source event. If the JSON library reads back the
  document it wrote, the clock text written with the format of line 91 is not empty
  and is read back as \<open>t0\<close> with the format of line 375, and at the reading \<open>now\<close>
  of the receiver the staleness test of line 377 is false, then \<^verbatim>\<open>deserialize\<close>
  succeeds, and every required field of the envelope it returns is the field of the
  source event: the identifier, the type, the time text, the content, the attachment
  addresses, the author with the four permissions, the server and the channel.
\<close>

theorem deserialize_serialize_roundtrip:
  assumes "serialize l uuid t0 etype c = (logs, Inr body)"
    and "fromJSON l (toJSON l (serialize_data uuid (strftime l t0 ''%Y-%m-%d %H:%M:%S.%f'') etype c)) =
           Inr (serialize_data uuid (strftime l t0 ''%Y-%m-%d %H:%M:%S.%f'') etype c)"
    and "strftime l t0 ''%Y-%m-%d %H:%M:%S.%f'' \<noteq> []"
    and "strptime l (strftime l t0 ''%Y-%m-%d %H:%M:%S.%f'') ''%Y-%m-%d %H:%M:%S.%f'' = Some t0"
    and "\<not> total_seconds l (now - t0) > of_int (stale_seconds cfg)"
  shows "\<exists>d. deserialize l cfg now body =
             ([Log Debug (''Deserialized data: '' @ body @ '')'')], Inr (Some d)) \<and>
           attrs d [''event'', ''id''] = Inr (JStr uuid) \<and>
           attrs d [''event'', ''type''] = Inr (JStr etype) \<and>
           attrs d [''event'', ''time''] =
             Inr (JStr (strftime l t0 ''%Y-%m-%d %H:%M:%S.%f'')) \<and>
           attrs d [''event'', ''content''] = Inr (opt_str (content c)) \<and>
           attrs d [''event'', ''attachments''] = Inr (JArr (map JStr (attachment_urls c))) \<and>
           attrs d [''author'', ''username''] = Inr (JStr (author_name c)) \<and>
           attrs d [''author'', ''id''] = Inr (JNum (author_id c)) \<and>
           attrs d [''author'', ''nickname''] = Inr (JStr (author_display_name c)) \<and>
           attrs d [''author'', ''discriminator''] = Inr (JStr (author_discriminator c)) \<and>
           attrs d [''author'', ''is_bot''] = Inr (JBool (author_bot c)) \<and>
           attrs d [''author'', ''top_role''] = Inr (JStr (author_top_role c)) \<and>
           attrs d [''author'', ''permissions'', ''kick''] = Inr (JBool (kick_members c)) \<and>
           attrs d [''author'', ''permissions'', ''ban''] = Inr (JBool (ban_members c)) \<and>
           attrs d [''author'', ''permissions'', ''unban''] = Inr (JBool (ban_members c)) \<and>
           attrs d [''author'', ''permissions'', ''admin''] = Inr (JBool (administrator c)) \<and>
           attrs d [''server'', ''name''] = Inr (JStr (guild_name c)) \<and>
           attrs d [''server'', ''id''] = Inr (JNum (guild_id c)) \<and>
           attrs d [''channel'', ''name''] = Inr (JStr (channel_name c)) \<and>
           attrs d [''channel'', ''id''] = Inr (JNum (channel_id c))"
proof -
  let ?d = "serialize_data uuid (strftime l t0 ''%Y-%m-%d %H:%M:%S.%f'') etype c"
  have body: "body = toJSON l ?d"
    using assms(1) by (simp add: serialize_def Let_def)
  have parse: "fromJSON l body = Inr ?d"
    using assms(2) body by simp
  have got: "deserialize l cfg now body =
      ([Log Debug (''Deserialized data: '' @ body @ '')'')], Inr (Some ?d))"
    using deserialize_timed [OF parse serialize_data_time assms(3) assms(4)] assms(5)
    by simp
  show ?thesis
    by (rule exI [of _ ?d], intro conjI)
      (rule got serialize_data_time serialize_data_fields)+
qed

lemma sample_envelope_roundtrip:
  "parse_json (print_json
     (serialize_data ''id-1'' ''2020-01-01 00:00:00.000000'' ''command'' sample_ctx)) =
   Inr (serialize_data ''id-1'' ''2020-01-01 00:00:00.000000'' ''command'' sample_ctx)"
  by code_simp

theorem deserialize_serialize_roundtrip_witness:
  "\<exists>d. deserialize codec_lib sample_config 299000000
          (print_json
            (serialize_data ''id-1'' ''2020-01-01 00:00:00.000000'' ''command'' sample_ctx)) =
        ([Log Debug (''Deserialized data: '' @
            print_json
              (serialize_data ''id-1'' ''2020-01-01 00:00:00.000000'' ''command'' sample_ctx) @
            '')'')], Inr (Some d)) \<and>
      attrs d [''event'', ''id''] = Inr (JStr ''id-1'') \<and>
      attrs d [''event'', ''type''] = Inr (JStr ''command'') \<and>
      attrs d [''event'', ''time''] = Inr (JStr ''2020-01-01 00:00:00.000000'') \<and>
      attrs d [''event'', ''content''] = Inr (JStr ''troll'') \<and>
      attrs d [''event'', ''attachments''] = Inr (JArr []) \<and>
      attrs d [''author'', ''username''] = Inr (JStr ''mod'') \<and>
      attrs d [''author'', ''id''] = Inr (JNum 11) \<and>
      attrs d [''author'', ''nickname''] = Inr (JStr ''Mod'') \<and>
      attrs d [''author'', ''discriminator''] = Inr (JStr ''0001'') \<and>
      attrs d [''author'', ''is_bot''] = Inr (JBool False) \<and>
      attrs d [''author'', ''top_role''] = Inr (JStr ''Moderator'') \<and>
      attrs d [''author'', ''permissions'', ''kick''] = Inr (JBool True) \<and>
      attrs d [''author'', ''permissions'', ''ban''] = Inr (JBool False) \<and>
      attrs d [''author'', ''permissions'', ''unban''] = Inr (JBool False) \<and>
      attrs d [''author'', ''permissions'', ''admin''] = Inr (JBool False) \<and>
      attrs d [''server'', ''name''] = Inr (JStr ''Support'') \<and>
      attrs d [''server'', ''id''] = Inr (JNum 1) \<and>
      attrs d [''channel'', ''name''] = Inr (JStr ''help'') \<and>
      attrs d [''channel'', ''id''] = Inr (JNum 7)"
proof -
  let ?d = "serialize_data ''id-1'' ''2020-01-01 00:00:00.000000'' ''command'' sample_ctx"
  have clock: "strftime codec_lib 0 ''%Y-%m-%d %H:%M:%S.%f'' = ''2020-01-01 00:00:00.000000''"
    by (simp add: codec_lib_def sample_lib_def sample_clock_def)
  have enc: "toJSON codec_lib = print_json" and dec: "fromJSON codec_lib = parse_json"
    by (simp_all add: codec_lib_def)
  have sent: "serialize codec_lib ''id-1'' 0 ''command'' sample_ctx =
      ([Log Debug (''Serialized data: '' @ print_json ?d)], Inr (print_json ?d))"
    unfolding serialize_def Let_def clock enc by (rule refl)
  have codec: "fromJSON codec_lib (toJSON codec_lib
      (serialize_data ''id-1'' (strftime codec_lib 0 ''%Y-%m-%d %H:%M:%S.%f'') ''command''
        sample_ctx)) =
      Inr (serialize_data ''id-1'' (strftime codec_lib 0 ''%Y-%m-%d %H:%M:%S.%f'') ''command''
        sample_ctx)"
    unfolding clock enc dec by (rule sample_envelope_roundtrip)
  have nonempty: "strftime codec_lib 0 ''%Y-%m-%d %H:%M:%S.%f'' \<noteq> []"
    unfolding clock by simp
  have parse: "strptime codec_lib (strftime codec_lib 0 ''%Y-%m-%d %H:%M:%S.%f'')
      ''%Y-%m-%d %H:%M:%S.%f'' = Some 0"
    unfolding clock by (simp add: codec_lib_def sample_lib_def sample_clock_def)
  have fresh: "\<not> total_seconds codec_lib (299000000 - 0) > of_int (stale_seconds sample_config)"
    by (simp add: codec_lib_def sample_lib_def sample_config_def)
  show ?thesis
    using deserialize_serialize_roundtrip [OF sent codec nonempty parse fresh]
    unfolding clock by (simp add: sample_ctx_def opt_str_def del: attrs.simps)
qed

text \<open>
  C6. The claim is that \<^verbatim>\<open>deserialize\<close> never raises, and that a payload which parses
  but has no \<^verbatim>\<open>event.time\<close> is reported as malformed. Line 361 reads
  \<^verbatim>\<open>deserialized.event.time\<close> outside the \<^verbatim>\<open>try\<close>, and a \<^verbatim>\<open>Munch\<close> raises
  \<^verbatim>\<open>AttributeError\<close> for a key it does not have: the test of line 362 is reached only
  when the key is there. Here the payload is the JSON object with an empty
  \<^verbatim>\<open>event\<close>; the exception leaves \<^verbatim>\<open>deserialize\<close>, \<^verbatim>\<open>handle_event\<close> and the tick of
  the receiver, and the second response of the tick is never handled.
\<close>

theorem deserialize_raises_without_time:
  \<open>deserialize (sample_lib ''{"event": {}}'' (JObj [(''event'', JObj [])]))
     sample_config 0 ''{"event": {}}'' = ([], Inl AttributeError) \<and>
   handle_event (sample_lib ''{"event": {}}'' (JObj [(''event'', JObj [])])) sample_bot
     sample_config 0 ''{"event": {}}'' = ([], Inl AttributeError) \<and>
   IRCReceiver_execute [(0, ''{"event": {}}''), (0, ''not json'')] False
     (sample_lib ''{"event": {}}'' (JObj [(''event'', JObj [])])) sample_bot sample_config
     \<lparr>mq_error_state = False, error_count = 0\<rparr> = ([], Inl AttributeError)\<close>
  by (simp add: deserialize_def handle_event_def IRCReceiver_execute_def sample_lib_def
      attr_def)

text \<open>
  The float test of line 377 against the exact age. For a \<^verbatim>\<open>total_seconds\<close> that is
  monotone, exact on the threshold and within the relative error \<open>2\<^sup>-\<^sup>5\<^sup>3\<close> of the
  quotient, as the correctly rounded double is, the test decides as the age in
  microseconds does, for every threshold of at most \<open>2\<^sup>3\<^sup>3\<close> seconds.
\<close>

lemma stale_test_exact:
  fixes ts :: "int \<Rightarrow> rat" and S n :: int
  assumes mono: "\<And>a b. a \<le> b \<Longrightarrow> ts a \<le> ts b"
    and exact: "ts (S * 1000000) = of_int S"
    and rounded: "\<And>k. \<bar>ts k - of_int k / 1000000\<bar> \<le> \<bar>of_int k / 1000000\<bar> / 2 ^ 53"
    and bound: "\<bar>S\<bar> \<le> 2 ^ 33"
  shows "(ts n > of_int S) = (n > S * 1000000)"
proof
  assume "ts n > of_int S"
  show "n > S * 1000000"
  proof (rule ccontr)
    assume "\<not> n > S * 1000000"
    then have "ts n \<le> ts (S * 1000000)"
      by (intro mono) simp
    then show False
      using exact \<open>ts n > of_int S\<close> by simp
  qed
next
  assume "n > S * 1000000"
  then have "ts (S * 1000000 + 1) \<le> ts n"
    by (intro mono) simp
  moreover have "of_int S < ts (S * 1000000 + 1)"
  proof -
    let ?x = "of_int (S * 1000000 + 1) / 1000000 :: rat"
    have x: "?x = of_int S + 1 / 1000000"
      by (simp add: field_simps)
    have "\<bar>of_int S :: rat\<bar> \<le> 2 ^ 33"
      using bound by (metis of_int_abs of_int_le_numeral_power_cancel_iff)
    then have "\<bar>?x\<bar> \<le> 2 ^ 33 + 1"
      unfolding x by linarith
    then have err: "\<bar>?x\<bar> / 2 ^ 53 < 1 / 1000000"
      by simp
    have "\<bar>ts (S * 1000000 + 1) - ?x\<bar> \<le> \<bar>?x\<bar> / 2 ^ 53"
      by (rule rounded)
    then have "?x - ts (S * 1000000 + 1) < 1 / 1000000"
      using err by linarith
    then show ?thesis
      unfolding x by linarith
  qed
  ultimately show "ts n > of_int S"
    by linarith
qed

lemma sample_total_seconds_mono:
  "a \<le> b \<Longrightarrow> total_seconds (sample_lib wire doc) a \<le> total_seconds (sample_lib wire doc) b"
proof -
  assume le: "a \<le> b"
  have low: "(of_int k :: rat) / 1000000 \<le> 20000000000" if "k < 20000000000000001" for k :: int
  proof -
    have "k \<le> 20000000000000000"
      using that by simp
    then have "(of_int k :: rat) \<le> of_int 20000000000000000"
      by (simp only: of_int_le_iff)
    then show ?thesis by simp
  qed
  have high: "(20000000000 :: rat) \<le> of_int k / 1000000" if "20000000000000001 \<le> k" for k :: int
  proof -
    have "(of_int 20000000000000001 :: rat) \<le> of_int k"
      using that by (simp only: of_int_le_iff)
    then show ?thesis by simp
  qed
  have plain: "(of_int a :: rat) / 1000000 \<le> of_int b / 1000000"
    using le by (simp add: divide_right_mono)
  show ?thesis
    using le low [of a] high [of b] plain by (auto simp: sample_lib_def)
qed

lemma sample_total_seconds_rounded:
  "\<bar>total_seconds (sample_lib wire doc) k - of_int k / 1000000\<bar> \<le>
     \<bar>of_int k / 1000000\<bar> / 2 ^ 53"
  by (simp add: sample_lib_def)

lemma sample_total_seconds_exact:
  "\<bar>S\<bar> \<le> 2 ^ 33 \<Longrightarrow> total_seconds (sample_lib wire doc) (S * 1000000) = of_int S"
  by (auto simp: sample_lib_def)

lemma str_int_300: "str_int 300 = ''300''"
  by code_simp

lemma sample_message_dispatch:
  "dispatch_event (sample_lib wire doc) sample_bot (sample_config\<lparr>stale_seconds := S\<rparr>) response
     (irc_envelope ''message'' time JNull (JArr [JStr ''o''])) =
   ([Send (Channel 7) (IRC_LOGO @ '' `@alice` troll'')], Inr ())"
  by (simp add: dispatch_event_def process_message_def format_chat_message_def
      get_permissions_label_def py_in_def get_channel_of_def channels_def channel_map_get_def
      message_types_def irc_envelope_def attr_def sample_lib_def sample_bot_def
      sample_config_def sample_str_def emit_def)

text \<open>
  C3, as the claim states it, fails for very large thresholds. Here \<^verbatim>\<open>stale_seconds\<close>
  is 20000000000 and the envelope is one microsecond older than that at the clock
  reading 0: \<^verbatim>\<open>total_seconds()\<close> is the float 20000000000.0, the test of line 377
  is false, and the envelope is delivered.
\<close>

theorem stale_envelope_delivered_at_large_threshold:
  "strptime
     (sample_lib ''w'' (irc_envelope ''message'' ''1386-03-23 12:26:39.999999'' JNull (JArr [JStr ''o''])))
     ''1386-03-23 12:26:39.999999'' ''%Y-%m-%d %H:%M:%S.%f'' = Some (- 20000000000000001) \<and>
   (0 :: int) - (- 20000000000000001) > 20000000000 * 1000000 \<and>
   handle_event
     (sample_lib ''w'' (irc_envelope ''message'' ''1386-03-23 12:26:39.999999'' JNull (JArr [JStr ''o''])))
     sample_bot (sample_config\<lparr>stale_seconds := 20000000000\<rparr>) 0 ''w'' =
   ([Log Debug ''Deserialized data: w)'',
     Send (Channel 7) (IRC_LOGO @ '' `@alice` troll'')], Inr ())"
proof -
  let ?d = "irc_envelope ''message'' ''1386-03-23 12:26:39.999999'' JNull (JArr [JStr ''o''])"
  let ?l = "sample_lib ''w'' ?d"
  let ?cfg = "sample_config\<lparr>stale_seconds := 20000000000\<rparr>"
  have parse: "fromJSON ?l ''w'' = Inr ?d"
    by (simp add: sample_lib_def)
  have time: "attrs ?d [''event'', ''time''] = Inr (JStr ''1386-03-23 12:26:39.999999'')"
    by (simp add: irc_envelope_def attr_def)
  have clock: "strptime ?l ''1386-03-23 12:26:39.999999'' ''%Y-%m-%d %H:%M:%S.%f'' =
      Some (- 20000000000000001)"
    by (simp add: sample_lib_def sample_clock_def)
  have test: "\<not> total_seconds ?l (0 - (- 20000000000000001)) > of_int (stale_seconds ?cfg)"
    by (simp add: sample_lib_def)
  have got: "deserialize ?l ?cfg 0 ''w'' = ([Log Debug ''Deserialized data: w)''], Inr (Some ?d))"
    using deserialize_timed [OF parse time _ clock, of ?cfg 0] test by simp
  have full: "truthy ?d"
    using time by (rule attrs_truthy)
  have "handle_event ?l sample_bot ?cfg 0 ''w'' =
      ([Log Debug ''Deserialized data: w)'',
        Send (Channel 7) (IRC_LOGO @ '' `@alice` troll'')], Inr ())"
    using got full by (simp add: handle_event_def sample_message_dispatch)
  then show ?thesis
    using clock by simp
qed

text \<open>
  C3, amended. For every threshold \<^verbatim>\<open>stale_seconds\<close> of at most \<open>2\<^sup>3\<^sup>3\<close> seconds in
  absolute value, and a \<^verbatim>\<open>total_seconds\<close> that rounds as the double does (monotone,
  exact on the threshold, within the relative error \<open>2\<^sup>-\<^sup>5\<^sup>3\<close>): an envelope whose
  \<^verbatim>\<open>event.time\<close> parses under the format of line 375 to a time more than
  \<^verbatim>\<open>stale_seconds\<close> before the clock reading is not returned by \<^verbatim>\<open>deserialize\<close>, and
  \<^verbatim>\<open>handle_event\<close> logs two warnings and does nothing else, the dispatch is not
  reached; an envelope that is \<^verbatim>\<open>stale_seconds\<close> old or younger is returned, and
  \<^verbatim>\<open>handle_event\<close> goes on with the dispatch on its type.
\<close>

theorem stale_envelope_dropped_fresh_delivered:
  assumes "fromJSON l body = Inr d"
    and "attrs d [''event'', ''time''] = Inr (JStr s)"
    and "s \<noteq> []"
    and "strptime l s ''%Y-%m-%d %H:%M:%S.%f'' = Some t"
    and "\<bar>stale_seconds cfg\<bar> \<le> 2 ^ 33"
    and "\<And>a b. a \<le> b \<Longrightarrow> total_seconds l a \<le> total_seconds l b"
    and "total_seconds l (stale_seconds cfg * 1000000) = of_int (stale_seconds cfg)"
    and "\<And>k. \<bar>total_seconds l k - of_int k / 1000000\<bar> \<le> \<bar>of_int k / 1000000\<bar> / 2 ^ 53"
  shows "(if now - t > stale_seconds cfg * 1000000 then
            snd (deserialize l cfg now body) = Inr None \<and>
            handle_event l b cfg now body =
              ([Log Warning (''Incoming data failed stale check ('' @
                  str_int (stale_seconds cfg) @ '' seconds)''),
                Log Warning ''Unable to deserialize data! Aborting!''], Inr ())
          else
            snd (deserialize l cfg now body) = Inr (Some d) \<and>
            handle_event l b cfg now body =
              (Log Debug (''Deserialized data: '' @ body @ '')'') #
                 fst (dispatch_event l b cfg body d),
               snd (dispatch_event l b cfg body d)))"
proof -
  have full: "truthy d"
    using assms(2) by (rule attrs_truthy)
  have test: "(total_seconds l (now - t) > of_int (stale_seconds cfg)) =
      (now - t > stale_seconds cfg * 1000000)"
    using assms(6) assms(7) assms(8) assms(5) by (rule stale_test_exact)
  show ?thesis
    using deserialize_timed [OF assms(1-4), of cfg now] full
    by (simp add: test handle_event_def emit_def)
qed

theorem stale_envelope_dropped_fresh_delivered_witness:
  "handle_event
     (sample_lib ''w'' (irc_envelope ''message'' ''2020-01-01 00:00:00.000000'' JNull (JArr [JStr ''o''])))
     sample_bot sample_config 301000000 ''w'' =
   ([Log Warning ''Incoming data failed stale check (300 seconds)'',
     Log Warning ''Unable to deserialize data! Aborting!''], Inr ()) \<and>
   handle_event
     (sample_lib ''w'' (irc_envelope ''message'' ''2020-01-01 00:00:00.000000'' JNull (JArr [JStr ''o''])))
     sample_bot sample_config 299000000 ''w'' =
   ([Log Debug ''Deserialized data: w)'',
     Send (Channel 7) (IRC_LOGO @ '' `@alice` troll'')], Inr ()) \<and>
   handle_event
     (sample_lib ''w'' (irc_envelope ''message'' ''2020-01-01 00:00:00.000000'' JNull (JArr [JStr ''o''])))
     sample_bot sample_config 300000000 ''w'' =
   ([Log Debug ''Deserialized data: w)'',
     Send (Channel 7) (IRC_LOGO @ '' `@alice` troll'')], Inr ())"
proof -
  let ?d = "irc_envelope ''message'' ''2020-01-01 00:00:00.000000'' JNull (JArr [JStr ''o''])"
  let ?l = "sample_lib ''w'' ?d"
  have parse: "fromJSON ?l ''w'' = Inr ?d"
    by (simp add: sample_lib_def)
  have time: "attrs ?d [''event'', ''time''] = Inr (JStr ''2020-01-01 00:00:00.000000'')"
    by (simp add: irc_envelope_def attr_def)
  have nonempty: "''2020-01-01 00:00:00.000000'' \<noteq> []"
    by simp
  have clock: "strptime ?l ''2020-01-01 00:00:00.000000'' ''%Y-%m-%d %H:%M:%S.%f'' = Some 0"
    by (simp add: sample_lib_def sample_clock_def)
  have limit: "stale_seconds sample_config = 300"
    by (simp add: sample_config_def)
  have bound: "\<bar>stale_seconds sample_config\<bar> \<le> 2 ^ 33"
    by (simp add: limit)
  have exact: "total_seconds ?l (stale_seconds sample_config * 1000000) =
      of_int (stale_seconds sample_config)"
    using bound by (rule sample_total_seconds_exact)
  have dispatched: "dispatch_event ?l sample_bot sample_config ''w'' ?d =
      ([Send (Channel 7) (IRC_LOGO @ '' `@alice` troll'')], Inr ())"
    using sample_message_dispatch [of "''w''" ?d 300 "''w''" "''2020-01-01 00:00:00.000000''"]
    by (simp add: sample_config_def)
  show ?thesis
    using stale_envelope_dropped_fresh_delivered
        [OF parse time nonempty clock bound sample_total_seconds_mono exact
          sample_total_seconds_rounded, where now = 301000000 and b = sample_bot]
      stale_envelope_dropped_fresh_delivered
        [OF parse time nonempty clock bound sample_total_seconds_mono exact
          sample_total_seconds_rounded, where now = 299000000 and b = sample_bot]
      stale_envelope_dropped_fresh_delivered
        [OF parse time nonempty clock bound sample_total_seconds_mono exact
          sample_total_seconds_rounded, where now = 300000000 and b = sample_bot]
    by (simp add: limit str_int_300 dispatched)
qed

section \<open>Properties of the command path\<close>

text \<open>
  C2, as the claim states it, fails. The envelope here is the one \<^verbatim>\<open>serialize\<close> builds
  for a moderator whose permissions have \<open>kick = true\<close>, the command is \<open>kick\<close> and
  commands are enabled: \<^verbatim>\<open>_data_has_op\<close> looks for the key \<open>o\<close> among
  \<open>kick\<close>, \<open>ban\<close>, \<open>unban\<close>, \<open>admin\<close>, finds none, and the command is blocked
  before any channel is looked up.
\<close>

theorem kick_permission_is_blocked:
  "attrs (serialize_data ''id-1'' ''2020-01-01 00:00:00.000000'' ''command'' sample_ctx)
     [''author'', ''permissions'', ''kick''] = Inr (JBool True) \<and>
   attrs (serialize_data ''id-1'' ''2020-01-01 00:00:00.000000'' ''command'' sample_ctx)
     [''event'', ''command''] = Inr (JStr ''kick'') \<and>
   commands_allowed sample_config \<and>
   data_has_op (serialize_data ''id-1'' ''2020-01-01 00:00:00.000000'' ''command'' sample_ctx) =
     Inr False \<and>
   process_command (sample_lib ''w'' JNull) sample_bot sample_config
     (serialize_data ''id-1'' ''2020-01-01 00:00:00.000000'' ''command'' sample_ctx) =
   ([Log Warning ''Blocking incoming kick request due to permissions''], Inr ())"
  by (simp add: process_command_def process_user_command_def data_has_op_def py_in_def
      serialize_data_def sample_ctx_def opt_str_def attr_def sample_lib_def sample_config_def
      sample_str_def emit_def)

text \<open>
  C2, amended. With commands enabled and a command among \<open>kick\<close>, \<open>ban\<close>, \<open>unban\<close>,
  the gate decides on the operator marker alone: when \<open>o\<close> is not in
  \<^verbatim>\<open>author.permissions\<close> the envelope is rejected with one warning and no channel or
  adapter call, and when it is there the envelope goes on to the channel, guild and
  target resolution. The booleans \<open>kick\<close>, \<open>ban\<close>, \<open>unban\<close> and \<open>admin\<close> play no
  part: a permission object with exactly these keys never holds the marker.
\<close>

theorem gate_decides_on_operator_marker:
  assumes "commands_allowed cfg"
    and "attrs data [''event'', ''command''] = Inr command"
    and "command \<in> set [JStr ''kick'', JStr ''ban'', JStr ''unban'']"
    and "attrs data [''author'', ''permissions''] = Inr permissions"
    and "py_in ''o'' permissions = Inr found"
  shows "process_command l b cfg data =
           (if found then resolve_and_execute l b cfg data
            else ([Log Warning (''Blocking incoming '' @ str_of l command @
                     '' request due to permissions'')], Inr ())) \<and>
         py_in ''o'' (JObj [(''kick'', JBool k), (''ban'', JBool bn), (''unban'', JBool u),
                            (''admin'', JBool a)]) = Inr False"
proof -
  have op: "data_has_op data = Inr found"
    using assms(4,5) by (simp add: data_has_op_def)
  have routed: "process_command l b cfg data = process_user_command l b cfg data"
    using assms(1-3) by (simp add: process_command_def)
  have gate: "process_user_command l b cfg data =
      (if found then resolve_and_execute l b cfg data
       else ([Log Warning (''Blocking incoming '' @ str_of l command @
                '' request due to permissions'')], Inr ()))"
    using op assms(2) by (simp add: process_user_command_def emit_def)
  have keys: "py_in ''o'' (JObj [(''kick'', JBool k), (''ban'', JBool bn), (''unban'', JBool u),
      (''admin'', JBool a)]) = Inr False"
    by (simp add: py_in_def)
  show ?thesis using routed gate keys by simp
qed

lemma sample_kick_resolved:
  "resolve_and_execute (sample_lib ''w'' JNull) sample_bot sample_config
     (irc_envelope ''command'' ''2020-01-01 00:00:00.000000'' (JStr ''kick'') (JArr [JStr ''o''])) =
   ([Send (Channel 7)
       ''Executing IRC **kick** command from `alice!a@irc.example` on target `troll`'',
     Kick (Guild 1) (Member 42)], Inr ())"
  by (simp add: resolve_and_execute_def moderate_def get_channel_of_def channels_def
      channel_map_get_def irc_envelope_def attr_def sample_lib_def sample_bot_def
      sample_config_def sample_str_def emit_def)

theorem gate_decides_on_operator_marker_witness:
  "process_command (sample_lib ''w'' JNull) sample_bot sample_config
     (irc_envelope ''command'' ''2020-01-01 00:00:00.000000'' (JStr ''kick'') (JArr [JStr ''o''])) =
   ([Send (Channel 7)
       ''Executing IRC **kick** command from `alice!a@irc.example` on target `troll`'',
     Kick (Guild 1) (Member 42)], Inr ()) \<and>
   process_command (sample_lib ''w'' JNull) sample_bot sample_config
     (irc_envelope ''command'' ''2020-01-01 00:00:00.000000'' (JStr ''kick'') (JArr [JStr ''v''])) =
   ([Log Warning ''Blocking incoming kick request due to permissions''], Inr ())"
proof -
  let ?l = "sample_lib ''w'' JNull"
  let ?op = "irc_envelope ''command'' ''2020-01-01 00:00:00.000000'' (JStr ''kick'') (JArr [JStr ''o''])"
  let ?voice = "irc_envelope ''command'' ''2020-01-01 00:00:00.000000'' (JStr ''kick'') (JArr [JStr ''v''])"
  have allowed: "commands_allowed sample_config"
    by (simp add: sample_config_def)
  have routable: "JStr ''kick'' \<in> set [JStr ''kick'', JStr ''ban'', JStr ''unban'']"
    by simp
  have cmd: "attrs ?op [''event'', ''command''] = Inr (JStr ''kick'')"
      "attrs ?voice [''event'', ''command''] = Inr (JStr ''kick'')"
    by (simp_all add: irc_envelope_def attr_def)
  have perms: "attrs ?op [''author'', ''permissions''] = Inr (JArr [JStr ''o''])"
      "attrs ?voice [''author'', ''permissions''] = Inr (JArr [JStr ''v''])"
    by (simp_all add: irc_envelope_def attr_def)
  have marker: "py_in ''o'' (JArr [JStr ''o'']) = Inr True"
      "py_in ''o'' (JArr [JStr ''v'']) = Inr False"
    by (simp_all add: py_in_def)
  have name: "str_of ?l (JStr ''kick'') = ''kick''"
    by (simp add: sample_lib_def sample_str_def)
  show ?thesis
    using gate_decides_on_operator_marker
        [OF allowed cmd(1) routable perms(1) marker(1), where l = ?l and b = sample_bot]
      gate_decides_on_operator_marker
        [OF allowed cmd(2) routable perms(2) marker(2), where l = ?l and b = sample_bot]
    by (simp add: sample_kick_resolved name)
qed

section \<open>Properties of the dispatch\<close>

lemma deserialize_Some:
  assumes "snd (deserialize l cfg now body) = Inr (Some d)"
  shows "deserialize l cfg now body =
           ([Log Debug (''Deserialized data: '' @ body @ '')'')], Inr (Some d))"
  using assms
  by (auto simp: deserialize_def split: sum.splits if_splits)

lemma dispatch_unknown_type:
  assumes "attrs data [''event'', ''type''] = Inr ty"
    and "ty \<notin> set message_types"
    and "ty \<noteq> JStr ''command''"
    and "ty \<noteq> JStr ''response''"
  shows "dispatch_event l b cfg response data =
           ([Log Warning (''Unable to handle event: '' @ response)], Inr ())"
  using assms by (simp add: dispatch_event_def emit_def)

lemma process_command_unroutable:
  assumes "attrs data [''event'', ''command''] = Inr command"
    and "command \<notin> set [JStr ''kick'', JStr ''ban'', JStr ''unban'']"
  shows "process_command l b cfg data =
           (if commands_allowed cfg then
              ([Log Warning (''Received unroutable command: '' @ str_of l command)], Inr ())
            else
              ([Log Debug (''Blocking incoming '' @ str_of l command @
                  '' request due to disabled config'')], Inr ()))"
  using assms by (simp add: process_command_def emit_def)

text \<open>
  C8, as the claim states it, fails in its second half: with commands disabled,
  \<^verbatim>\<open>process_command\<close> returns at line 254 before it looks at the command, and a
  \<open>whois\<close> command is logged at debug level as blocked, not as unroutable.
\<close>

theorem disabled_command_is_not_logged_unroutable:
  "attrs (irc_envelope ''command'' ''2020-01-01 00:00:00.000000'' (JStr ''whois'')
       (JArr [JStr ''o''])) [''event'', ''command''] = Inr (JStr ''whois'') \<and>
   process_command (sample_lib ''w'' JNull) sample_bot
     (sample_config\<lparr>commands_allowed := False\<rparr>)
     (irc_envelope ''command'' ''2020-01-01 00:00:00.000000'' (JStr ''whois'')
       (JArr [JStr ''o''])) =
   ([Log Debug ''Blocking incoming whois request due to disabled config''], Inr ())"
  by (simp add: process_command_def irc_envelope_def attr_def sample_lib_def
      sample_config_def sample_str_def emit_def)

text \<open>
  C8, amended. An envelope that \<^verbatim>\<open>deserialize\<close> returned and whose \<^verbatim>\<open>event.type\<close> is
  none of the ten types makes \<^verbatim>\<open>handle_event\<close> log one warning (after the debug line
  of \<^verbatim>\<open>deserialize\<close>) and call no adapter. A command envelope whose \<^verbatim>\<open>event.command\<close>
  is none of \<open>kick\<close>, \<open>ban\<close>, \<open>unban\<close> makes \<^verbatim>\<open>process_command\<close> call no adapter;
  with commands enabled it is logged as unroutable, with commands disabled it is
  logged as blocked.
\<close>

theorem unroutable_is_logged_and_dropped:
  "(snd (deserialize l cfg now response) = Inr (Some data) \<and>
    attrs data [''event'', ''type''] = Inr ty \<and> ty \<notin> set message_types \<and>
    ty \<noteq> JStr ''command'' \<and> ty \<noteq> JStr ''response'' \<longrightarrow>
      handle_event l b cfg now response =
        ([Log Debug (''Deserialized data: '' @ response @ '')''),
          Log Warning (''Unable to handle event: '' @ response)], Inr ())) \<and>
   (attrs data' [''event'', ''command''] = Inr command \<and>
    command \<notin> set [JStr ''kick'', JStr ''ban'', JStr ''unban''] \<longrightarrow>
      process_command l b cfg data' =
        (if commands_allowed cfg then
           ([Log Warning (''Received unroutable command: '' @ str_of l command)], Inr ())
         else
           ([Log Debug (''Blocking incoming '' @ str_of l command @
               '' request due to disabled config'')], Inr ())))"
proof (intro conjI impI)
  assume h: "snd (deserialize l cfg now response) = Inr (Some data) \<and>
    attrs data [''event'', ''type''] = Inr ty \<and> ty \<notin> set message_types \<and>
    ty \<noteq> JStr ''command'' \<and> ty \<noteq> JStr ''response''"
  then have some: "snd (deserialize l cfg now response) = Inr (Some data)"
    and ty: "attrs data [''event'', ''type''] = Inr ty"
    and other: "ty \<notin> set message_types" "ty \<noteq> JStr ''command''" "ty \<noteq> JStr ''response''"
    by blast+
  have got: "deserialize l cfg now response =
      ([Log Debug (''Deserialized data: '' @ response @ '')'')], Inr (Some data))"
    using some by (rule deserialize_Some)
  have "dispatch_event l b cfg response data =
      ([Log Warning (''Unable to handle event: '' @ response)], Inr ())"
    using ty other by (rule dispatch_unknown_type)
  moreover have "truthy data"
    using ty by (rule attrs_truthy)
  ultimately show "handle_event l b cfg now response =
      ([Log Debug (''Deserialized data: '' @ response @ '')''),
        Log Warning (''Unable to handle event: '' @ response)], Inr ())"
    using got by (simp add: handle_event_def)
next
  assume "attrs data' [''event'', ''command''] = Inr command \<and>
    command \<notin> set [JStr ''kick'', JStr ''ban'', JStr ''unban'']"
  then have cmd: "attrs data' [''event'', ''command''] = Inr command"
    and unroutable: "command \<notin> set [JStr ''kick'', JStr ''ban'', JStr ''unban'']"
    by blast+
  show "process_command l b cfg data' =
      (if commands_allowed cfg then
         ([Log Warning (''Received unroutable command: '' @ str_of l command)], Inr ())
       else
         ([Log Debug (''Blocking incoming '' @ str_of l command @
             '' request due to disabled config'')], Inr ()))"
    using cmd unroutable by (rule process_command_unroutable)
qed

theorem unroutable_is_logged_and_dropped_witness:
  "handle_event
     (sample_lib ''w'' (irc_envelope ''unknown'' ''2020-01-01 00:00:00.000000'' JNull (JArr [])))
     sample_bot sample_config 299000000 ''w'' =
   ([Log Debug ''Deserialized data: w)'', Log Warning ''Unable to handle event: w''],
    Inr ()) \<and>
   process_command (sample_lib ''w'' JNull) sample_bot sample_config
     (irc_envelope ''command'' ''2020-01-01 00:00:00.000000'' (JStr ''whois'') (JArr [JStr ''o''])) =
   ([Log Warning ''Received unroutable command: whois''], Inr ())"
proof -
  let ?d = "irc_envelope ''unknown'' ''2020-01-01 00:00:00.000000'' JNull (JArr [])"
  let ?l = "sample_lib ''w'' ?d"
  let ?c = "irc_envelope ''command'' ''2020-01-01 00:00:00.000000'' (JStr ''whois'') (JArr [JStr ''o''])"
  have parse: "fromJSON ?l ''w'' = Inr ?d"
    by (simp add: sample_lib_def)
  have time: "attrs ?d [''event'', ''time''] = Inr (JStr ''2020-01-01 00:00:00.000000'')"
    by (simp add: irc_envelope_def attr_def)
  have clock: "strptime ?l ''2020-01-01 00:00:00.000000'' ''%Y-%m-%d %H:%M:%S.%f'' = Some 0"
    by (simp add: sample_lib_def sample_clock_def)
  have fresh: "\<not> total_seconds ?l (299000000 - 0) > of_int (stale_seconds sample_config)"
    by (simp add: sample_lib_def sample_config_def)
  have got: "snd (deserialize ?l sample_config 299000000 ''w'') = Inr (Some ?d)"
    using deserialize_timed [OF parse time _ clock, of sample_config 299000000] fresh
    by simp
  have ty: "attrs ?d [''event'', ''type''] = Inr (JStr ''unknown'')"
    by (simp add: irc_envelope_def attr_def)
  have other: "JStr ''unknown'' \<notin> set message_types" "JStr ''unknown'' \<noteq> JStr ''command''"
      "JStr ''unknown'' \<noteq> JStr ''response''"
    by (simp_all add: message_types_def)
  have cmd: "attrs ?c [''event'', ''command''] = Inr (JStr ''whois'')"
    by (simp add: irc_envelope_def attr_def)
  have unroutable: "JStr ''whois'' \<notin> set [JStr ''kick'', JStr ''ban'', JStr ''unban'']"
    by simp
  have allowed: "commands_allowed sample_config"
    by (simp add: sample_config_def)
  have name: "str_of (sample_lib ''w'' JNull) (JStr ''whois'') = ''whois''"
    by (simp add: sample_lib_def sample_str_def)
  show ?thesis
    using unroutable_is_logged_and_dropped
        [where l = ?l and cfg = sample_config and now = 299000000 and response = "''w''"
          and data = ?d and ty = "JStr ''unknown''" and b = sample_bot and data' = ?c
          and command = "JStr ''whois''"]
      unroutable_is_logged_and_dropped
        [where l = "sample_lib ''w'' JNull" and cfg = sample_config and now = 299000000
          and response = "''w''" and data = ?d and ty = "JStr ''unknown''" and b = sample_bot
          and data' = ?c and command = "JStr ''whois''"]
      got ty other cmd unroutable allowed name
    by simp
qed

section \<open>Properties of the formatter\<close>

lemma permissions_label_cases:
  assumes "get_permissions_label permissions = Inr label"
  shows "label =
           (if truthy permissions \<and> py_in ''v'' permissions = Inr True then ''+'' else '''') @
           (if truthy permissions \<and> py_in ''o'' permissions = Inr True then ''@'' else '''')"
proof (cases "truthy permissions")
  case False
  then show ?thesis using assms by (simp add: get_permissions_label_def)
next
  case True
  show ?thesis
  proof (cases "py_in ''v'' permissions")
    case (Inl e)
    then show ?thesis using assms True by (simp add: get_permissions_label_def)
  next
    case v: (Inr voiced)
    show ?thesis
    proof (cases "py_in ''o'' permissions")
      case (Inl e)
      then show ?thesis using assms True v by (simp add: get_permissions_label_def)
    next
      case (Inr opped)
      then show ?thesis using assms True v by (auto simp: get_permissions_label_def)
    qed
  qed
qed

lemma format_message:
  assumes "attrs data [''author'', ''permissions''] = Inr permissions"
    and "get_permissions_label permissions = Inr label"
    and "attrs data [''event'', ''type''] = Inr (JStr ''message'')"
    and "attrs data [''author'', ''nickname''] = Inr nickname"
    and "attrs data [''event'', ''content''] = Inr said"
  shows "process_message l data =
           Inr (Some (IRC_LOGO @ '' `'' @ label @ str_of l nickname @ ''` '' @ str_of l said))"
  using assms by (simp add: process_message_def format_chat_message_def)

lemma format_join:
  assumes "attrs data [''author'', ''permissions''] = Inr permissions"
    and "get_permissions_label permissions = Inr label"
    and "attrs data [''event'', ''type''] = Inr (JStr ''join'')"
    and "attrs data [''author'', ''mask''] = Inr hostmask"
    and "attrs data [''channel'', ''name''] = Inr name"
  shows "process_message l data =
           Inr (Some (IRC_LOGO @ '' `'' @ label @ str_of l hostmask @ ''` has joined '' @
                      str_of l name @ ''!''))"
  using assms by (simp add: process_message_def format_event_message_def)

lemma format_part:
  assumes "attrs data [''author'', ''permissions''] = Inr permissions"
    and "get_permissions_label permissions = Inr label"
    and "attrs data [''event'', ''type''] = Inr (JStr ''part'')"
    and "attrs data [''author'', ''mask''] = Inr hostmask"
    and "attrs data [''channel'', ''name''] = Inr name"
  shows "process_message l data =
           Inr (Some (IRC_LOGO @ '' `'' @ label @ str_of l hostmask @ ''` left '' @
                      str_of l name @ ''!''))"
  using assms by (simp add: process_message_def format_event_message_def)

lemma format_quit:
  assumes "attrs data [''author'', ''permissions''] = Inr permissions"
    and "get_permissions_label permissions = Inr label"
    and "attrs data [''event'', ''type''] = Inr (JStr ''quit'')"
    and "attrs data [''author'', ''mask''] = Inr hostmask"
    and "attrs data [''event'', ''content''] = Inr said"
  shows "process_message l data =
           Inr (Some (IRC_LOGO @ '' `'' @ label @ str_of l hostmask @ ''` quit ('' @
                      str_of l said @ '')''))"
  using assms by (simp add: process_message_def format_event_message_def)

lemma format_kick:
  assumes "attrs data [''author'', ''permissions''] = Inr permissions"
    and "get_permissions_label permissions = Inr label"
    and "attrs data [''event'', ''type''] = Inr (JStr ''kick'')"
    and "attrs data [''author'', ''mask''] = Inr hostmask"
    and "attrs data [''event'', ''target''] = Inr target"
    and "attrs data [''channel'', ''name''] = Inr name"
    and "attrs data [''event'', ''content''] = Inr said"
  shows "process_message l data =
           Inr (Some (IRC_LOGO @ '' `'' @ label @ str_of l hostmask @ ''` kicked `'' @
                      str_of l target @ ''` from '' @ str_of l name @ ''! (reason: *'' @
                      str_of l said @ ''*).''))"
  using assms by (simp add: process_message_def format_event_message_def)

lemma format_action:
  assumes "attrs data [''author'', ''permissions''] = Inr permissions"
    and "get_permissions_label permissions = Inr label"
    and "attrs data [''event'', ''type''] = Inr (JStr ''action'')"
    and "attrs data [''author'', ''nickname''] = Inr nickname"
    and "attrs data [''event'', ''content''] = Inr said"
  shows "process_message l data =
           Inr (Some (IRC_LOGO @ '' `'' @ label @ str_of l nickname @ ''` '' @
                      str_of l said))"
  using assms by (simp add: process_message_def format_event_message_def)

lemma format_mode:
  assumes "attrs data [''author'', ''permissions''] = Inr permissions"
    and "get_permissions_label permissions = Inr label"
    and "attrs data [''event'', ''type''] = Inr (JStr ''other'')"
    and "attrs data [''event'', ''irc_command''] = Inr command"
    and "py_lower command = Inr ''mode''"
    and "attrs data [''author'', ''nickname''] = Inr nickname"
    and "attrs data [''event'', ''irc_paramlist''] = Inr paramlist"
    and "py_index paramlist 1 = Inr param1"
    and "py_index paramlist 2 = Inr param2"
  shows "process_message l data =
           Inr (Some (IRC_LOGO @ '' `'' @ label @ str_of l nickname @ ''` sets mode **'' @
                      str_of l param1 @ ''** on `'' @ str_of l param2 @ ''`''))"
  using assms by (simp add: process_message_def format_event_message_def)

lemma format_other:
  assumes "attrs data [''author'', ''permissions''] = Inr permissions"
    and "get_permissions_label permissions = Inr label"
    and "attrs data [''event'', ''type''] = Inr (JStr ''other'')"
    and "attrs data [''event'', ''irc_command''] = Inr command"
    and "py_lower command = Inr lowered"
    and "lowered \<noteq> ''mode''"
    and "attrs data [''author'', ''mask''] = Inr hostmask"
    and "attrs data [''channel'', ''name''] = Inr name"
  shows "process_message l data =
           Inr (Some (IRC_LOGO @ '' `'' @ str_of l hostmask @ ''` did some configuration on '' @
                      str_of l name @ ''...''))"
  using assms by (simp add: process_message_def format_event_message_def)

lemma format_factoid:
  assumes "attrs data [''author'', ''permissions''] = Inr permissions"
    and "get_permissions_label permissions = Inr label"
    and "attrs data [''event'', ''type''] = Inr (JStr ''factoid'')"
    and "attrs data [''event'', ''content''] = Inr said"
  shows "process_message l data = Inr (Some (IRC_LOGO @ '' '' @ str_of l said))"
  using assms by (simp add: process_message_def format_event_message_def)

text \<open>
  C9, as the claim states it, fails for the action line: line 413 puts the icon in
  front of it, as in a chat message, where the claim has no icon. Here an operator
  with voice sends the action \<open>troll\<close>.
\<close>

theorem action_line_carries_icon:
  "process_message (sample_lib ''w'' JNull)
     (irc_envelope ''action'' ''2020-01-01 00:00:00.000000'' JNull (JArr [JStr ''v'', JStr ''o''])) =
   Inr (Some (IRC_LOGO @ '' `+@alice` troll'')) \<and>
   process_message (sample_lib ''w'' JNull)
     (irc_envelope ''action'' ''2020-01-01 00:00:00.000000'' JNull (JArr [JStr ''v'', JStr ''o''])) \<noteq>
   Inr (Some ''`+@alice` troll'')"
  by (simp add: process_message_def format_event_message_def get_permissions_label_def
      py_in_def irc_envelope_def attr_def sample_lib_def sample_str_def IRC_LOGO_def)

text \<open>
  C9, amended. For an envelope that carries \<^verbatim>\<open>author.permissions\<close> with a label
  that can be computed (permissions that are empty or \<^verbatim>\<open>None\<close>, or an object, a list
  or a string) and the fields its line reads, \<^verbatim>\<open>process_message\<close> returns the line of
  its type, every line with the icon in front: the chat message and the action as
  icon, label and nickname in backquotes, content; join, part, quit and kick with the
  label and the mask; the mode change with the second and third parameter, counted in
  elements of a list or in characters of a string; any other configuration event with
  the mask alone; the factoid as icon and content. The permissions are read and the
  label is computed for every line, also for the two that do not print it. The label
  is \<open>+\<close> when \<open>v\<close> is in the permissions, followed by \<open>@\<close> when \<open>o\<close> is in
  them, and empty for permissions that are empty or \<^verbatim>\<open>None\<close>.
\<close>

theorem message_lines_as_formatted:
  assumes "attrs data [''author'', ''permissions''] = Inr permissions"
    and "get_permissions_label permissions = Inr label"
  shows
    "label =
       (if truthy permissions \<and> py_in ''v'' permissions = Inr True then ''+'' else '''') @
       (if truthy permissions \<and> py_in ''o'' permissions = Inr True then ''@'' else '''') \<and>
     (attrs data [''event'', ''type''] = Inr (JStr ''message'') \<and>
      attrs data [''author'', ''nickname''] = Inr nickname \<and>
      attrs data [''event'', ''content''] = Inr said \<longrightarrow>
        process_message l data =
          Inr (Some (IRC_LOGO @ '' `'' @ label @ str_of l nickname @ ''` '' @ str_of l said))) \<and>
     (attrs data [''event'', ''type''] = Inr (JStr ''join'') \<and>
      attrs data [''author'', ''mask''] = Inr hostmask \<and>
      attrs data [''channel'', ''name''] = Inr name \<longrightarrow>
        process_message l data =
          Inr (Some (IRC_LOGO @ '' `'' @ label @ str_of l hostmask @ ''` has joined '' @
                     str_of l name @ ''!''))) \<and>
     (attrs data [''event'', ''type''] = Inr (JStr ''part'') \<and>
      attrs data [''author'', ''mask''] = Inr hostmask \<and>
      attrs data [''channel'', ''name''] = Inr name \<longrightarrow>
        process_message l data =
          Inr (Some (IRC_LOGO @ '' `'' @ label @ str_of l hostmask @ ''` left '' @
                     str_of l name @ ''!''))) \<and>
     (attrs data [''event'', ''type''] = Inr (JStr ''quit'') \<and>
      attrs data [''author'', ''mask''] = Inr hostmask \<and>
      attrs data [''event'', ''content''] = Inr said \<longrightarrow>
        process_message l data =
          Inr (Some (IRC_LOGO @ '' `'' @ label @ str_of l hostmask @ ''` quit ('' @
                     str_of l said @ '')''))) \<and>
     (attrs data [''event'', ''type''] = Inr (JStr ''kick'') \<and>
      attrs data [''author'', ''mask''] = Inr hostmask \<and>
      attrs data [''event'', ''target''] = Inr target \<and>
      attrs data [''channel'', ''name''] = Inr name \<and>
      attrs data [''event'', ''content''] = Inr said \<longrightarrow>
        process_message l data =
          Inr (Some (IRC_LOGO @ '' `'' @ label @ str_of l hostmask @ ''` kicked `'' @
                     str_of l target @ ''` from '' @ str_of l name @ ''! (reason: *'' @
                     str_of l said @ ''*).''))) \<and>
     (attrs data [''event'', ''type''] = Inr (JStr ''action'') \<and>
      attrs data [''author'', ''nickname''] = Inr nickname \<and>
      attrs data [''event'', ''content''] = Inr said \<longrightarrow>
        process_message l data =
          Inr (Some (IRC_LOGO @ '' `'' @ label @ str_of l nickname @ ''` '' @ str_of l said))) \<and>
     (attrs data [''event'', ''type''] = Inr (JStr ''other'') \<and>
      attrs data [''event'', ''irc_command''] = Inr command \<and>
      py_lower command = Inr ''mode'' \<and>
      attrs data [''author'', ''nickname''] = Inr nickname \<and>
      attrs data [''event'', ''irc_paramlist''] = Inr paramlist \<and>
      py_index paramlist 1 = Inr param1 \<and>
      py_index paramlist 2 = Inr param2 \<longrightarrow>
        process_message l data =
          Inr (Some (IRC_LOGO @ '' `'' @ label @ str_of l nickname @ ''` sets mode **'' @
                     str_of l param1 @ ''** on `'' @ str_of l param2 @ ''`''))) \<and>
     (attrs data [''event'', ''type''] = Inr (JStr ''other'') \<and>
      attrs data [''event'', ''irc_command''] = Inr command \<and>
      py_lower command = Inr lowered \<and> lowered \<noteq> ''mode'' \<and>
      attrs data [''author'', ''mask''] = Inr hostmask \<and>
      attrs data [''channel'', ''name''] = Inr name \<longrightarrow>
        process_message l data =
          Inr (Some (IRC_LOGO @ '' `'' @ str_of l hostmask @ ''` did some configuration on '' @
                     str_of l name @ ''...''))) \<and>
     (attrs data [''event'', ''type''] = Inr (JStr ''factoid'') \<and>
      attrs data [''event'', ''content''] = Inr said \<longrightarrow>
        process_message l data = Inr (Some (IRC_LOGO @ '' '' @ str_of l said)))"
proof (intro conjI impI; (elim conjE)?)
  show "label =
      (if truthy permissions \<and> py_in ''v'' permissions = Inr True then ''+'' else '''') @
      (if truthy permissions \<and> py_in ''o'' permissions = Inr True then ''@'' else '''')"
    using assms(2) by (rule permissions_label_cases)
qed (rule format_message [OF assms] format_join [OF assms] format_part [OF assms]
      format_quit [OF assms] format_kick [OF assms] format_action [OF assms]
      format_mode [OF assms] format_other [OF assms] format_factoid [OF assms];
     assumption)+

text \<open>
  A parameter list given as one string is indexed in characters: in the four bytes of
  \<open>e\<close> with an acute accent, \<open>+\<close> and \<open>o\<close>, index 1 is \<open>+\<close> and index 2 is \<open>o\<close>,
  and without the \<open>o\<close> index 2 is beyond the end.
\<close>

lemma py_index_counts_characters:
  "py_index (JStr [CHR 0xC3, CHR 0xA9, CHR ''+'', CHR ''o'']) 1 = Inr (JStr ''+'')"
  "py_index (JStr [CHR 0xC3, CHR 0xA9, CHR ''+'', CHR ''o'']) 2 = Inr (JStr ''o'')"
  "py_index (JStr [CHR 0xC3, CHR 0xA9, CHR ''+'']) 2 = Inl IndexError"
  by (simp_all add: py_index_def continuation_def)

lemma sample_label: "get_permissions_label (JArr [JStr ''v'', JStr ''o'']) = Inr ''+@''"
  by (simp add: get_permissions_label_def py_in_def)

lemma sample_lower: "py_lower (JStr ''MODE'') = Inr ''mode''"
  by code_simp

lemma sample_fields:
  "attrs (irc_envelope etype time command permissions) [''author'', ''permissions''] =
     Inr permissions"
  "attrs (irc_envelope etype time command permissions) [''event'', ''type''] = Inr (JStr etype)"
  "attrs (irc_envelope etype time command permissions) [''author'', ''nickname''] =
     Inr (JStr ''alice'')"
  "attrs (irc_envelope etype time command permissions) [''author'', ''mask''] =
     Inr (JStr ''alice!a@irc.example'')"
  "attrs (irc_envelope etype time command permissions) [''event'', ''content''] =
     Inr (JStr ''troll'')"
  "attrs (irc_envelope etype time command permissions) [''event'', ''target''] =
     Inr (JStr ''bob'')"
  "attrs (irc_envelope etype time command permissions) [''channel'', ''name''] =
     Inr (JStr ''#help'')"
  "attrs (irc_envelope etype time command permissions) [''event'', ''irc_command''] =
     Inr (JStr ''MODE'')"
  "attrs (irc_envelope etype time command permissions) [''event'', ''irc_paramlist''] =
     Inr (JArr [JStr ''#help'', JStr ''+o'', JStr ''bob''])"
  by (simp_all add: irc_envelope_def attr_def)

lemma sample_str_of: "str_of (sample_lib wire doc) (JStr s) = s"
  by (simp add: sample_lib_def sample_str_def)

theorem message_lines_as_formatted_witness:
  "process_message (sample_lib ''w'' JNull)
     (irc_envelope ''message'' ''2020-01-01 00:00:00.000000'' JNull (JArr [JStr ''v'', JStr ''o''])) =
   Inr (Some (IRC_LOGO @ '' `+@alice` troll'')) \<and>
   process_message (sample_lib ''w'' JNull)
     (irc_envelope ''kick'' ''2020-01-01 00:00:00.000000'' JNull (JArr [JStr ''v'', JStr ''o''])) =
   Inr (Some (IRC_LOGO @
     '' `+@alice!a@irc.example` kicked `bob` from #help! (reason: *troll*).'')) \<and>
   process_message (sample_lib ''w'' JNull)
     (irc_envelope ''other'' ''2020-01-01 00:00:00.000000'' JNull (JArr [JStr ''v'', JStr ''o''])) =
   Inr (Some (IRC_LOGO @ '' `+@alice` sets mode **+o** on `bob`''))"
proof -
  let ?l = "sample_lib ''w'' JNull"
  let ?p = "JArr [JStr ''v'', JStr ''o'']"
  let ?m = "irc_envelope ''message'' ''2020-01-01 00:00:00.000000'' JNull ?p"
  let ?k = "irc_envelope ''kick'' ''2020-01-01 00:00:00.000000'' JNull ?p"
  let ?o = "irc_envelope ''other'' ''2020-01-01 00:00:00.000000'' JNull ?p"
  have pm: "attrs ?m [''author'', ''permissions''] = Inr ?p"
    and pk: "attrs ?k [''author'', ''permissions''] = Inr ?p"
    and po: "attrs ?o [''author'', ''permissions''] = Inr ?p"
    by (rule sample_fields)+
  have m: "process_message ?l ?m = Inr (Some (IRC_LOGO @ '' `+@alice` troll''))"
    using message_lines_as_formatted
        [OF pm sample_label, where l = ?l and nickname = "JStr ''alice''"
          and said = "JStr ''troll''"]
    by (simp del: attrs.simps add: sample_fields sample_str_of)
  have k: "process_message ?l ?k = Inr (Some (IRC_LOGO @
      '' `+@alice!a@irc.example` kicked `bob` from #help! (reason: *troll*).''))"
    using message_lines_as_formatted
        [OF pk sample_label, where l = ?l
          and hostmask = "JStr ''alice!a@irc.example''" and target = "JStr ''bob''"
          and name = "JStr ''#help''" and said = "JStr ''troll''"]
    by (simp del: attrs.simps add: sample_fields sample_str_of)
  have o: "process_message ?l ?o = Inr (Some (IRC_LOGO @ '' `+@alice` sets mode **+o** on `bob`''))"
    using message_lines_as_formatted
        [OF po sample_label, where l = ?l and nickname = "JStr ''alice''"
          and command = "JStr ''MODE''"
          and paramlist = "JArr [JStr ''#help'', JStr ''+o'', JStr ''bob'']"
          and ?param1.0 = "JStr ''+o''" and ?param2.0 = "JStr ''bob''"]
    by (simp del: attrs.simps add: sample_fields sample_str_of sample_lower py_index_def)
  show ?thesis using m k o by simp
qed

section \<open>Alerts over many ticks\<close>

lemma failed_noticed_tick:
  assumes "bodies_of (send_limit cfg) (send_buffer st) \<noteq> []"
    and "notice_errors cfg"
    and "first_channel b cfg = Inr (Some ch)"
  shows "DiscordRelay_execute (\<lambda>bodies. True) b cfg st =
           ([Publish (bodies_of (send_limit cfg) (send_buffer st)), Send ch queue_error_text],
            Inr (st\<lparr>mq_error_state := True\<rparr>))"
  using assms by (simp add: DiscordRelay_execute_def Let_def)

text \<open>
  While the broker is down and notices are on, every tick of the publisher with a
  pending entry sends the alert again: \<open>n\<close> ticks, \<open>n\<close> alerts.
\<close>

lemma publisher_alerts_every_failed_tick:
  assumes "bodies_of (send_limit cfg) (send_buffer st) \<noteq> []"
    and "notice_errors cfg"
    and "first_channel b cfg = Inr (Some ch)"
  shows "fst (publisher_ticks (replicate n (\<lambda>bodies. True)) b cfg st) =
           concat (replicate n
             [Publish (bodies_of (send_limit cfg) (send_buffer st)), Send ch queue_error_text])"
  using assms(1)
proof (induction n arbitrary: st)
  case 0
  then show ?case by (simp add: ret_def)
next
  case (Suc n)
  let ?st1 = "st\<lparr>mq_error_state := True\<rparr>"
  have pending: "bodies_of (send_limit cfg) (send_buffer ?st1) \<noteq> []"
    using Suc.prems by simp
  have tick: "DiscordRelay_execute (\<lambda>bodies. True) b cfg st =
      ([Publish (bodies_of (send_limit cfg) (send_buffer st)), Send ch queue_error_text],
       Inr ?st1)"
    using Suc.prems assms(2,3) by (rule failed_noticed_tick)
  show ?case
    using Suc.IH [OF pending] by (simp add: tick)
qed

lemma alerts_of_failed_ticks:
  "alerts (concat (replicate n [Publish bodies, Send ch queue_error_text])) =
     replicate n (Send ch queue_error_text)"
  by (induction n) (simp_all add: alerts_def)

lemma alerts_replicate:
  "alerts (replicate n (Send ch queue_error_text)) = replicate n (Send ch queue_error_text)"
  by (induction n) (simp_all add: alerts_def)

text \<open>
  The receiver counts its alerts: from a counter \<open>c\<close>, failed ticks that consume
  nothing send \<open>5 - c\<close> alerts and then none.
\<close>

lemma receiver_alerts_at_most_five:
  assumes "notice_errors cfg"
    and "first_channel b cfg = Inr (Some ch)"
  shows "fst (receiver_ticks (replicate n ([], True)) l b cfg st) =
           replicate (min n (nat (5 - error_count st))) (Send ch queue_error_text)"
proof (induction n arbitrary: st)
  case 0
  then show ?case by (simp add: ret_def)
next
  case (Suc n)
  show ?case
  proof (cases "error_count st < 5")
    case True
    let ?st1 = "st\<lparr>mq_error_state := True, error_count := error_count st + 1\<rparr>"
    have tick: "IRCReceiver_execute [] True l b cfg st = ([Send ch queue_error_text], Inr ?st1)"
      using True assms by (simp add: IRCReceiver_execute_def Let_def)
    have count: "nat (5 - error_count st) = Suc (nat (5 - error_count ?st1))"
      using True by simp
    have "fst (receiver_ticks (replicate (Suc n) ([], True)) l b cfg st) =
        Send ch queue_error_text # fst (receiver_ticks (replicate n ([], True)) l b cfg ?st1)"
      by (simp add: tick)
    also have "\<dots> = Send ch queue_error_text #
        replicate (min n (nat (5 - error_count ?st1))) (Send ch queue_error_text)"
      by (simp only: Suc.IH [of ?st1])
    also have "\<dots> = replicate (Suc (min n (nat (5 - error_count ?st1)))) (Send ch queue_error_text)"
      by simp
    also have "Suc (min n (nat (5 - error_count ?st1))) = min (Suc n) (nat (5 - error_count st))"
      by (simp only: count min_Suc_Suc)
    finally show ?thesis .
  next
    case False
    let ?st1 = "st\<lparr>mq_error_state := True\<rparr>"
    have tick: "IRCReceiver_execute [] True l b cfg st = ([], Inr ?st1)"
      using False by (simp add: IRCReceiver_execute_def Let_def ret_def)
    have none: "nat (5 - error_count st) = 0" "nat (5 - error_count ?st1) = 0"
      using False by simp_all
    show ?thesis
      using Suc.IH [of ?st1] by (simp add: tick none)
  qed
qed

lemma sample_first_channel: "first_channel sample_bot sample_config = Inr (Some (Channel 7))"
  by (simp add: first_channel_def sample_bot_def sample_config_def)

text \<open>
  C7. The claim is that both loops stop alerting once a bound is reached. The receiver
  does (line 190 tests \<^verbatim>\<open>self.error_count < 5\<close> and line 195 counts), the publisher
  has no counter: with one entry pending and the broker down for six ticks it sends
  six alerts, where the receiver over six failed ticks sends five.
\<close>

theorem publisher_alerts_have_no_bound:
  "alerts (fst (publisher_ticks (replicate 6 (\<lambda>bodies. True)) sample_bot sample_config
     \<lparr>mq_error_state = False, send_buffer = [''A'']\<rparr>)) =
   replicate 6 (Send (Channel 7) queue_error_text) \<and>
   alerts (fst (receiver_ticks (replicate 6 ([], True)) (sample_lib ''w'' JNull) sample_bot
     sample_config \<lparr>mq_error_state = False, error_count = 0\<rparr>)) =
   replicate 5 (Send (Channel 7) queue_error_text)"
proof -
  have pending: "bodies_of (send_limit sample_config)
      (send_buffer \<lparr>mq_error_state = False, send_buffer = [''A'']\<rparr>) \<noteq> []"
    by (simp add: bodies_of_take sample_config_def)
  have notice: "notice_errors sample_config"
    by (simp add: sample_config_def)
  show ?thesis
    using publisher_alerts_every_failed_tick [OF pending notice sample_first_channel, of 6]
      receiver_alerts_at_most_five [OF notice sample_first_channel, of 6 "sample_lib ''w'' JNull"
        "\<lparr>mq_error_state = False, error_count = 0\<rparr>"]
    by (simp only: alerts_of_failed_ticks alerts_replicate) simp
qed


end
